theory Spec2Isabelle
  imports Complex_Main
begin

section \<open>The host's objects and what a run shows\<close>

text \<open>
  Coordinates are the host's double precision numbers, taken here as real numbers: the
  arithmetic of the scripts is modelled exactly, without rounding.
\<close>

record XYZ =
  X :: real
  Y :: real
  Z :: real

record BoundingBoxXYZ =
  Min_xyz :: XYZ
  Max_xyz :: XYZ

text \<open>\<^verbatim>\<open>Line.CreateBound(p, q)\<close> is the segment between its two end points.\<close>

datatype line = Line XYZ XYZ

record RebarBarType =
  type_Id :: int
  SYMBOL_NAME_PARAM :: "string option"

text \<open>
  What the user and the host see of a run, in order: alerts, printed lines, the start,
  commit and roll-back of a transaction, and the create-rebar calls that returned.
  \<^item> \<open>PrintSkipping i\<close> is the line \<^verbatim>\<open>Skipping {i} - no bounding box\<close>;
  \<^item> \<open>PrintFailed i e\<close> is the line \<^verbatim>\<open>Failed on {i}: {e}\<close>;
  \<^item> \<open>CreateFromCurves i rt n l\<close> is a returned call of \<^verbatim>\<open>Rebar.CreateFromCurves\<close>
    for the host element \<open>i\<close>, the bar type \<open>rt\<close>, the normal \<open>n\<close> and the curve \<open>l\<close>;
  \<^item> \<open>AlertComplete s t v h\<close> is the closing alert \<^verbatim>\<open>Successfully placed rebar in
    {s}/{t} elements\<close>, \<^verbatim>\<open>Vertical: {v} bars\<close>, \<^verbatim>\<open>Horizontal: {h} bars\<close>.
\<close>

datatype event =
    Alert string
  | Start string
  | Commit
  | RollBack
  | Print string
  | PrintSkipping int
  | PrintFailed int string
  | CreateFromCurves int RebarBarType XYZ line
  | AlertComplete nat nat int int

text \<open>
  A run ends by reaching the last line, by \<^verbatim>\<open>forms.alert(..., exitscript=True)\<close>
  (which ends the script after the alert), or by an exception that nothing catches.
\<close>

datatype py_error = KeyError string

datatype outcome = Completed | Exited | Raised py_error

section \<open>Rename Views (FirstButton.pushbutton/script.py)\<close>

subsection \<open>Python string operations used by the script\<close>

text \<open>
  \<^verbatim>\<open>old_name.replace(find, replace)\<close>: every non-overlapping occurrence of \<open>find\<close>,
  scanning from the left, is replaced. \<open>replace_from\<close> is the scan for a non-empty
  \<open>find\<close>; an empty \<open>find\<close> matches before every character and at the end.
\<close>

fun replace_from :: "string \<Rightarrow> string \<Rightarrow> string \<Rightarrow> string" where
  "replace_from fnd rep [] = []"
| "replace_from fnd rep (c # cs) =
     (if fnd \<noteq> [] \<and> take (length fnd) (c # cs) = fnd
      then rep @ replace_from fnd rep (drop (length fnd) (c # cs))
      else c # replace_from fnd rep cs)"

definition py_replace :: "string \<Rightarrow> string \<Rightarrow> string \<Rightarrow> string" where
  "py_replace s fnd rep =
     (if fnd = [] then rep @ concat (map (\<lambda>c. c # rep) s) else replace_from fnd rep s)"

subsection \<open>The document and the host's name setter\<close>

text \<open>
  A view is identified by its element id; the part of the document the script reads and
  writes is the name of each view.
\<close>

type_synonym view = nat
type_synonym doc = "view \<Rightarrow> string"

text \<open>
  \<^verbatim>\<open>view.Name = new_name\<close> is a call into the host. It either raises (the result
  \<open>None\<close>) and leaves the document as it was, or stores the name of that one view. When it
  raises is the host's decision, the parameter \<open>rejects\<close>.
\<close>

definition set_Name :: "(doc \<Rightarrow> view \<Rightarrow> string \<Rightarrow> bool) \<Rightarrow> doc \<Rightarrow> view \<Rightarrow> string \<Rightarrow> doc option" where
  "set_Name rejects d v n = (if rejects d v n then None else Some (d(v := n)))"

text \<open>
  Modelled from the spec: the host's rule for rejecting a view name, which is not part of
  the repository. Section 6 of the specification: the mutation scope rejects a rename that
  collides with an existing sibling name. \<open>sibs\<close> lists the views of the document.
\<close>

definition duplicate_name :: "view list \<Rightarrow> doc \<Rightarrow> view \<Rightarrow> string \<Rightarrow> bool" where
  "duplicate_name sibs d v n = list_ex (\<lambda>w. w \<noteq> v \<and> d w = n) sibs"

subsection \<open>The renaming rule and the loop over the views\<close>

record rename_rule =
  rule_prefix :: string
  rule_find :: string
  rule_replace :: string
  rule_suffix :: string

text \<open>\<^verbatim>\<open>new_name = prefix + old_name.replace(find, replace) + suffix\<close>\<close>

definition new_name :: "rename_rule \<Rightarrow> string \<Rightarrow> string" where
  "new_name r old_name =
     rule_prefix r @ py_replace old_name (rule_find r) (rule_replace r) @ rule_suffix r"

text \<open>\<^verbatim>\<open>'{} -> {}'.format(old_name, new_name)\<close>\<close>

definition rename_line :: "string \<Rightarrow> string \<Rightarrow> string" where
  "rename_line old_name nm = old_name @ '' -> '' @ nm"

text \<open>
  \<^verbatim>\<open>for i in range(20): try: view.Name = new_name; print(...); break
  except: new_name += '*'\<close>
  The first argument counts the iterations that remain. The result is the document, the
  lines printed, and the names handed to the setter, in the order of the calls.
\<close>

fun rename_attempts ::
  "(doc \<Rightarrow> view \<Rightarrow> string \<Rightarrow> bool) \<Rightarrow> nat \<Rightarrow> doc \<Rightarrow> view \<Rightarrow> string \<Rightarrow> string
     \<Rightarrow> doc \<times> string list \<times> string list" where
  "rename_attempts rejects 0 d v old_name nm = (d, [], [])"
| "rename_attempts rejects (Suc k) d v old_name nm =
     (case set_Name rejects d v nm of
        Some d' \<Rightarrow> (d', [rename_line old_name nm], [nm])
      | None \<Rightarrow>
          (case rename_attempts rejects k d v old_name (nm @ ''*'') of
             (d', out, tried) \<Rightarrow> (d', out, nm # tried)))"

text \<open>
  The body of \<^verbatim>\<open>for view in sel_view\<close>: the candidate is computed from the
  view's name and the retry loop runs with its bound of 20. \<open>rename_view_trace\<close> gives
  the document, the printed lines and the names handed to the setter; \<open>rename_view\<close> is
  what the rest of the script sees of it, the document and the printed lines.
\<close>

definition rename_view_trace ::
  "(doc \<Rightarrow> view \<Rightarrow> string \<Rightarrow> bool) \<Rightarrow> rename_rule \<Rightarrow> doc \<Rightarrow> view
     \<Rightarrow> doc \<times> string list \<times> string list" where
  "rename_view_trace rejects r d v =
     (let old_name = d v;
          nm = new_name r old_name
      in rename_attempts rejects 20 d v old_name nm)"

definition rename_view ::
  "(doc \<Rightarrow> view \<Rightarrow> string \<Rightarrow> bool) \<Rightarrow> rename_rule \<Rightarrow> doc \<Rightarrow> view \<Rightarrow> doc \<times> string list" where
  "rename_view rejects r d v =
     (case rename_view_trace rejects r d v of (d', out, tried) \<Rightarrow> (d', out))"

fun rename_views ::
  "(doc \<Rightarrow> view \<Rightarrow> string \<Rightarrow> bool) \<Rightarrow> rename_rule \<Rightarrow> view list \<Rightarrow> doc \<Rightarrow> doc \<times> string list" where
  "rename_views rejects r [] d = (d, [])"
| "rename_views rejects r (v # vs) d =
     (case rename_view rejects r d v of
        (d1, out1) \<Rightarrow>
          (case rename_views rejects r vs d1 of (d2, out2) \<Rightarrow> (d2, out1 @ out2)))"

subsection \<open>The whole command\<close>

text \<open>
  A selected element is a view (with its id) or something else;
  \<^verbatim>\<open>issubclass(type(el), View)\<close> keeps the views.
\<close>

datatype sel_element = ViewElement view | OtherElement

fun view_of :: "sel_element \<Rightarrow> view option" where
  "view_of (ViewElement v) = Some v"
| "view_of OtherElement = None"

definition selected_views :: "sel_element list \<Rightarrow> view list" where
  "selected_views sel_elem = List.map_filter view_of sel_elem"

text \<open>\<^verbatim>\<open>user_inputs[k]\<close> on the dictionary of the form's values.\<close>

definition form_value :: "(string \<rightharpoonup> string) \<Rightarrow> string \<Rightarrow> py_error + string" where
  "form_value user_inputs k = (case user_inputs k of None \<Rightarrow> Inl (KeyError k) | Some s \<Rightarrow> Inr s)"

definition read_rule :: "(string \<rightharpoonup> string) \<Rightarrow> py_error + rename_rule" where
  "read_rule user_inputs =
     (case form_value user_inputs ''prefix'' of Inl e \<Rightarrow> Inl e | Inr p \<Rightarrow>
     (case form_value user_inputs ''find'' of Inl e \<Rightarrow> Inl e | Inr f \<Rightarrow>
     (case form_value user_inputs ''replace'' of Inl e \<Rightarrow> Inl e | Inr rp \<Rightarrow>
     (case form_value user_inputs ''suffix'' of Inl e \<Rightarrow> Inl e | Inr s \<Rightarrow>
        Inr \<lparr>rule_prefix = p, rule_find = f, rule_replace = rp, rule_suffix = s\<rparr>))))"

text \<open>
  The script from its first line to its last. \<open>sel_elem\<close> is the current selection,
  \<open>picked\<close> what \<^verbatim>\<open>forms.select_views()\<close> returns when it is called (\<open>None\<close> or a
  list), \<open>user_inputs\<close> the values of the form.
\<close>

definition rename_script ::
  "(doc \<Rightarrow> view \<Rightarrow> string \<Rightarrow> bool) \<Rightarrow> sel_element list \<Rightarrow> view list option
     \<Rightarrow> (string \<rightharpoonup> string) \<Rightarrow> doc \<Rightarrow> outcome \<times> doc \<times> event list" where
  "rename_script rejects sel_elem picked user_inputs d =
     (let sel_view = selected_views sel_elem;
          sel_view = (if sel_view = [] then (case picked of None \<Rightarrow> [] | Some vs \<Rightarrow> vs)
                      else sel_view)
      in if sel_view = []
         then (Exited, d, [Alert ''No Views Selected. Please Try Again''])
         else (case read_rule user_inputs of
                 Inl e \<Rightarrow> (Raised e, d, [])
               | Inr r \<Rightarrow>
                   (case rename_views rejects r sel_view d of
                      (d', out) \<Rightarrow>
                        (Completed, d',
                         [Start ''py-Rename Views''] @ map Print out @
                         [Commit, Print (replicate 50 CHR ''-''), Print ''Done'']))))"

section \<open>Manual Rebar Placement (InsertRebar.pushbutton/script.py)\<close>

subsection \<open>Reading the counts\<close>

text \<open>
  The three built-ins \<^verbatim>\<open>get_rebar_counts\<close> calls on the string it is given:
  \<^verbatim>\<open>strip()\<close>, \<^verbatim>\<open>split()\<close> and \<^verbatim>\<open>int(...)\<close>, the last with \<open>None\<close> where it
  raises ValueError. What counts as whitespace and as a digit is the Python engine's
  decision (a unicode string is cut at more characters than a byte string), so the
  command takes them as a parameter.
\<close>

record builtins =
  str_strip :: "string \<Rightarrow> string"
  str_split :: "string \<Rightarrow> string list"
  int_str :: "string \<Rightarrow> int option"

text \<open>
  The body of the \<^verbatim>\<open>try\<close> of \<^verbatim>\<open>get_rebar_counts\<close>, before the \<^verbatim>\<open>max\<close>;
  \<open>None\<close> when it raises (\<^verbatim>\<open>parts[0]\<close> on an empty list, or \<^verbatim>\<open>int\<close>).
\<close>

definition parse_counts :: "builtins \<Rightarrow> string \<Rightarrow> (int \<times> int) option" where
  "parse_counts py inp =
     (case str_split py (str_strip py inp) of
        [] \<Rightarrow> None
      | p0 # rest \<Rightarrow>
          (case int_str py p0 of
             None \<Rightarrow> None
           | Some vertical \<Rightarrow>
               (case rest of
                  [] \<Rightarrow> Some (vertical, vertical)
                | p1 # _ \<Rightarrow>
                    (case int_str py p1 of
                       None \<Rightarrow> None
                     | Some horizontal \<Rightarrow> Some (vertical, horizontal)))))"

text \<open>
  \<^verbatim>\<open>get_rebar_counts\<close>. \<open>inp\<close> is what \<^verbatim>\<open>forms.ask_for_string\<close> returns: \<open>None\<close>
  when the prompt is dismissed. \<open>Inl\<close> is the message of the alert that ends the script.
\<close>

definition get_rebar_counts :: "builtins \<Rightarrow> string option \<Rightarrow> string + int \<times> int" where
  "get_rebar_counts py inp =
     (case inp of
        None \<Rightarrow> Inl ''No input provided!''
      | Some s \<Rightarrow>
          if s = [] then Inl ''No input provided!''
          else (case parse_counts py s of
                  None \<Rightarrow> Inl (''Invalid input! Use format '3' or '3 5'' @ [CHR 0x27])
                | Some (vertical, horizontal) \<Rightarrow> Inr (max 1 vertical, max 1 horizontal)))"

subsection \<open>Elements and the filter\<close>

text \<open>
  The classes the filter tells apart. A family instance carries its structural type and
  a wall the kind of its wall type, as in the host's object model; \<open>OtherClass\<close> is any
  other class of element.
\<close>

datatype structural_type = NonStructural | Beam | Brace | Column | Footing | UnknownFraming

datatype wall_kind = Basic | Curtain | Stacked | UnknownKind

datatype element_class =
  FamilyInstance structural_type | Wall wall_kind | Floor | OtherClass

record element =
  Id_el :: int
  cls :: element_class
  BoundingBox :: "BoundingBoxXYZ option"

text \<open>\<^verbatim>\<open>isinstance(element, (FamilyInstance, Wall, Floor))\<close>\<close>

fun is_host_class :: "element_class \<Rightarrow> bool" where
  "is_host_class (FamilyInstance _) = True"
| "is_host_class (Wall _) = True"
| "is_host_class Floor = True"
| "is_host_class OtherClass = False"

text \<open>
  \<^verbatim>\<open>hasattr(element, 'WallType') and element.WallType.Kind != WallKind.Basic\<close>: of the
  three classes only a wall has the attribute.
\<close>

fun non_basic_wall :: "element_class \<Rightarrow> bool" where
  "non_basic_wall (Wall k) = (k \<noteq> Basic)"
| "non_basic_wall _ = False"

text \<open>
  The loop of \<^verbatim>\<open>get_valid_elements\<close> over the selection; an id that
  \<^verbatim>\<open>doc.GetElement\<close> does not resolve is \<open>None\<close>.
\<close>

fun valid_elements :: "element option list \<Rightarrow> element list" where
  "valid_elements [] = []"
| "valid_elements (None # sel) = valid_elements sel"
| "valid_elements (Some el # sel) =
     (if is_host_class (cls el)
      then (if non_basic_wall (cls el) then valid_elements sel
            else el # valid_elements sel)
      else valid_elements sel)"

definition get_valid_elements :: "element option list \<Rightarrow> string + element list" where
  "get_valid_elements selection =
     (let valid = valid_elements selection
      in if valid = [] then Inl ''No valid structural elements selected!'' else Inr valid)"

text \<open>
  The filter in the words of the specification: a structural family instance, a wall or
  a floor, walls further restricted to the basic kind.
\<close>

fun spec_can_host_rebar :: "element_class \<Rightarrow> bool" where
  "spec_can_host_rebar (FamilyInstance st) = (st \<noteq> NonStructural)"
| "spec_can_host_rebar (Wall k) = (k = Basic)"
| "spec_can_host_rebar Floor = True"
| "spec_can_host_rebar OtherClass = False"

subsection \<open>Placing the bars of one element\<close>

definition SNI_COVER :: real where
  "SNI_COVER = 0.040"

definition BasisX :: XYZ where
  "BasisX = \<lparr>X = 1, Y = 0, Z = 0\<rparr>"

definition BasisZ :: XYZ where
  "BasisZ = \<lparr>X = 0, Y = 0, Z = 1\<rparr>"

text \<open>
  \<^verbatim>\<open>(width - 2 * SNI_COVER) / max(1, (vertical - 1)) if vertical > 1 else 0\<close>, and the
  same for the height.
\<close>

definition v_spacing :: "BoundingBoxXYZ \<Rightarrow> int \<Rightarrow> real" where
  "v_spacing bbox vertical =
     (let width = X (Max_xyz bbox) - X (Min_xyz bbox)
      in if vertical > 1 then (width - 2 * SNI_COVER) / of_int (max 1 (vertical - 1)) else 0)"

definition h_spacing :: "BoundingBoxXYZ \<Rightarrow> int \<Rightarrow> real" where
  "h_spacing bbox horizontal =
     (let height = Z (Max_xyz bbox) - Z (Min_xyz bbox)
      in if horizontal > 1 then (height - 2 * SNI_COVER) / of_int (max 1 (horizontal - 1))
         else 0)"

text \<open>The two end points handed to \<^verbatim>\<open>Line.CreateBound\<close> in iteration \<open>i\<close>.\<close>

definition vertical_ends :: "BoundingBoxXYZ \<Rightarrow> int \<Rightarrow> nat \<Rightarrow> XYZ \<times> XYZ" where
  "vertical_ends bbox vertical i =
     (let x = X (Min_xyz bbox) + SNI_COVER + of_nat i * v_spacing bbox vertical
      in (\<lparr>X = x, Y = Y (Min_xyz bbox) + SNI_COVER, Z = Z (Min_xyz bbox) + SNI_COVER\<rparr>,
          \<lparr>X = x, Y = Y (Min_xyz bbox) + SNI_COVER, Z = Z (Max_xyz bbox) - SNI_COVER\<rparr>))"

definition horizontal_ends :: "BoundingBoxXYZ \<Rightarrow> int \<Rightarrow> nat \<Rightarrow> XYZ \<times> XYZ" where
  "horizontal_ends bbox horizontal i =
     (let z = Z (Min_xyz bbox) + SNI_COVER + of_nat i * h_spacing bbox horizontal
      in (\<lparr>X = X (Min_xyz bbox) + SNI_COVER, Y = Y (Min_xyz bbox) + SNI_COVER, Z = z\<rparr>,
          \<lparr>X = X (Max_xyz bbox) - SNI_COVER, Y = Y (Min_xyz bbox) + SNI_COVER, Z = z\<rparr>))"

text \<open>
  Every call made inside the \<^verbatim>\<open>try\<close> of \<^verbatim>\<open>place_rebars\<close> may raise; which calls
  do is the decision of the host and of the Python runtime. For each of them \<open>Some msg\<close>
  is the exception raised and \<open>None\<close> a call that returns:
  \<^item> \<open>get_BoundingBox_raises\<close>: \<^verbatim>\<open>element.get_BoundingBox(None)\<close>, which returns the
    element's \<open>BoundingBox\<close> when it returns;
  \<^item> \<open>float_div_raises a n\<close>: the division \<^verbatim>\<open>a / n\<close> of a float by an integer
    (OverflowError when the integer is too large for a float);
  \<^item> \<open>Transaction_Start\<close>: opening and starting the transaction;
  \<^item> \<open>range_raises n\<close>: \<^verbatim>\<open>range(n)\<close> (a list too long to build);
  \<^item> \<open>Line_CreateBound\<close> and \<open>Rebar_CreateFromCurves\<close>: the two calls of an iteration;
  \<^item> \<open>Transaction_Commit\<close>: \<^verbatim>\<open>t.Commit()\<close>.
\<close>

record host =
  get_BoundingBox_raises :: "element \<Rightarrow> string option"
  float_div_raises :: "real \<Rightarrow> int \<Rightarrow> string option"
  Transaction_Start :: "element \<Rightarrow> string option"
  range_raises :: "int \<Rightarrow> string option"
  Line_CreateBound :: "XYZ \<Rightarrow> XYZ \<Rightarrow> string option"
  Rebar_CreateFromCurves :: "element \<Rightarrow> RebarBarType \<Rightarrow> XYZ \<Rightarrow> line \<Rightarrow> string option"
  Transaction_Commit :: "element \<Rightarrow> string option"

text \<open>
  Whether the computation of a spacing raises: the division is evaluated only for a
  count above 1.
\<close>

definition v_spacing_raises :: "host \<Rightarrow> BoundingBoxXYZ \<Rightarrow> int \<Rightarrow> string option" where
  "v_spacing_raises h bbox vertical =
     (let width = X (Max_xyz bbox) - X (Min_xyz bbox)
      in if vertical > 1 then float_div_raises h (width - 2 * SNI_COVER) (max 1 (vertical - 1))
         else None)"

definition h_spacing_raises :: "host \<Rightarrow> BoundingBoxXYZ \<Rightarrow> int \<Rightarrow> string option" where
  "h_spacing_raises h bbox horizontal =
     (let height = Z (Max_xyz bbox) - Z (Min_xyz bbox)
      in if horizontal > 1
         then float_div_raises h (height - 2 * SNI_COVER) (max 1 (horizontal - 1))
         else None)"

text \<open>The event of a create-rebar call that returned, for the curve between two points.\<close>

fun bar_call :: "element \<Rightarrow> RebarBarType \<Rightarrow> XYZ \<Rightarrow> XYZ \<times> XYZ \<Rightarrow> event" where
  "bar_call el rt normal (p, q) = CreateFromCurves (Id_el el) rt normal (Line p q)"

text \<open>
  The body of one of the two \<^verbatim>\<open>for i in range(...)\<close> loops, over the end points of
  its iterations: the exception that stopped it, if any, and the create-rebar calls that
  returned.
\<close>

fun create_rebars ::
  "host \<Rightarrow> element \<Rightarrow> RebarBarType \<Rightarrow> XYZ \<Rightarrow> (XYZ \<times> XYZ) list \<Rightarrow> string option \<times> event list" where
  "create_rebars h el rt normal [] = (None, [])"
| "create_rebars h el rt normal ((p, q) # ends) =
     (case Line_CreateBound h p q of
        Some e \<Rightarrow> (Some e, [])
      | None \<Rightarrow>
          (case Rebar_CreateFromCurves h el rt normal (Line p q) of
             Some e \<Rightarrow> (Some e, [])
           | None \<Rightarrow>
               (case create_rebars h el rt normal ends of
                  (r, evs) \<Rightarrow> (r, bar_call el rt normal (p, q) # evs))))"

text \<open>
  What runs between \<^verbatim>\<open>t.Start()\<close> and the end of the \<^verbatim>\<open>with\<close> block: the two
  loops and the commit. The result is the exception that stopped it, if any, and the
  events up to there.
\<close>

definition transaction_body ::
  "host \<Rightarrow> element \<Rightarrow> RebarBarType \<Rightarrow> BoundingBoxXYZ \<Rightarrow> int \<Rightarrow> int
     \<Rightarrow> string option \<times> event list" where
  "transaction_body h el rt bbox vertical horizontal =
     (case range_raises h vertical of
        Some e \<Rightarrow> (Some e, [])
      | None \<Rightarrow>
     (case create_rebars h el rt BasisX
             (map (vertical_ends bbox vertical) [0..<nat vertical]) of
        (Some e, evs1) \<Rightarrow> (Some e, evs1)
      | (None, evs1) \<Rightarrow>
     (case range_raises h horizontal of
        Some e \<Rightarrow> (Some e, evs1)
      | None \<Rightarrow>
     (case create_rebars h el rt BasisZ
             (map (horizontal_ends bbox horizontal) [0..<nat horizontal]) of
        (Some e, evs2) \<Rightarrow> (Some e, evs1 @ evs2)
      | (None, evs2) \<Rightarrow>
     (case Transaction_Commit h el of
        Some e \<Rightarrow> (Some e, evs1 @ evs2)
      | None \<Rightarrow> (None, evs1 @ evs2 @ [Commit]))))))"

text \<open>
  The \<^verbatim>\<open>try\<close> block of \<^verbatim>\<open>place_rebars\<close>: \<open>Inl e\<close> when it is left by the exception
  \<open>e\<close>, \<open>Inr b\<close> when it returns \<open>b\<close>. Leaving the \<^verbatim>\<open>with Transaction\<close> block by an
  exception disposes of the started transaction, which rolls it back (\<open>RollBack\<close>).
\<close>

definition place_rebars_try ::
  "host \<Rightarrow> element \<Rightarrow> RebarBarType \<Rightarrow> int \<Rightarrow> int \<Rightarrow> (string + bool) \<times> event list" where
  "place_rebars_try h el rt vertical horizontal =
     (case get_BoundingBox_raises h el of
        Some e \<Rightarrow> (Inl e, [])
      | None \<Rightarrow>
     (case BoundingBox el of
        None \<Rightarrow> (Inr False, [PrintSkipping (Id_el el)])
      | Some bbox \<Rightarrow>
     (case v_spacing_raises h bbox vertical of
        Some e \<Rightarrow> (Inl e, [])
      | None \<Rightarrow>
     (case h_spacing_raises h bbox horizontal of
        Some e \<Rightarrow> (Inl e, [])
      | None \<Rightarrow>
     (case Transaction_Start h el of
        Some e \<Rightarrow> (Inl e, [])
      | None \<Rightarrow>
     (case transaction_body h el rt bbox vertical horizontal of
        (Some e, evs) \<Rightarrow> (Inl e, [Start ''Place Rebars''] @ evs @ [RollBack])
      | (None, evs) \<Rightarrow> (Inr True, [Start ''Place Rebars''] @ evs)))))))"

text \<open>
  \<^verbatim>\<open>place_rebars\<close>: the value returned and the events. The handler
  \<^verbatim>\<open>except Exception as e\<close> prints the failure and returns \<open>False\<close>.
\<close>

definition place_rebars ::
  "host \<Rightarrow> element \<Rightarrow> RebarBarType \<Rightarrow> int \<Rightarrow> int \<Rightarrow> bool \<times> event list" where
  "place_rebars h el rt vertical horizontal =
     (case place_rebars_try h el rt vertical horizontal of
        (Inl e, evs) \<Rightarrow> (False, evs @ [PrintFailed (Id_el el) e])
      | (Inr b, evs) \<Rightarrow> (b, evs))"

subsection \<open>The whole command\<close>

text \<open>The names offered for selection, and the type the chosen name stands for.\<close>

definition rebar_type_names :: "RebarBarType list \<Rightarrow> string list" where
  "rebar_type_names rebar_types =
     map (\<lambda>rt. case SYMBOL_NAME_PARAM rt of Some s \<Rightarrow> s | None \<Rightarrow> ''Unknown'') rebar_types"

fun find_selected_type :: "string \<Rightarrow> (string \<times> RebarBarType) list \<Rightarrow> RebarBarType option" where
  "find_selected_type nm [] = None"
| "find_selected_type nm ((name, rt) # rest) =
     (if name = nm then Some rt else find_selected_type nm rest)"

text \<open>
  \<^verbatim>\<open>for element in elements: if place_rebars(...): success_count += 1\<close>
\<close>

fun place_all ::
  "host \<Rightarrow> RebarBarType \<Rightarrow> int \<Rightarrow> int \<Rightarrow> element list \<Rightarrow> nat \<Rightarrow> nat \<times> event list" where
  "place_all h rt vertical horizontal [] success_count = (success_count, [])"
| "place_all h rt vertical horizontal (el # els) success_count =
     (case place_rebars h el rt vertical horizontal of
        (ok, evs) \<Rightarrow>
          (case place_all h rt vertical horizontal els
                  (if ok then success_count + 1 else success_count) of
             (n, evs') \<Rightarrow> (n, evs @ evs')))"

text \<open>
  The main block. \<open>selection\<close> is the current selection, \<open>rebar_types\<close> the rebar bar
  types of the document, \<open>chosen\<close> what the list dialog returns, \<open>inp\<close> what the prompt
  for the counts returns.
\<close>

definition rebar_script ::
  "builtins \<Rightarrow> host \<Rightarrow> element option list \<Rightarrow> RebarBarType list \<Rightarrow> string option
     \<Rightarrow> string option \<Rightarrow> outcome \<times> event list" where
  "rebar_script py h selection rebar_types chosen inp =
     (case get_valid_elements selection of
        Inl msg \<Rightarrow> (Exited, [Alert msg])
      | Inr elements \<Rightarrow>
          (case chosen of
             None \<Rightarrow> (Exited, [Alert ''No rebar type selected!''])
           | Some rebar_type_name \<Rightarrow>
               if rebar_type_name = [] then (Exited, [Alert ''No rebar type selected!''])
               else (case find_selected_type rebar_type_name
                            (zip (rebar_type_names rebar_types) rebar_types) of
                       None \<Rightarrow> (Exited, [Alert ''Failed to find selected rebar type!''])
                     | Some selected_type \<Rightarrow>
                         (case get_rebar_counts py inp of
                            Inl msg \<Rightarrow> (Exited, [Alert msg])
                          | Inr (vertical, horizontal) \<Rightarrow>
                              (case place_all h selected_type vertical horizontal elements 0 of
                                 (success_count, evs) \<Rightarrow>
                                   (Completed,
                                    evs @ [AlertComplete success_count (length elements)
                                             vertical horizontal]))))))"

subsection \<open>Reading the bars off the events\<close>

text \<open>The normal and the curve of every create-rebar call among the events.\<close>

fun created :: "event \<Rightarrow> (XYZ \<times> line) option" where
  "created (CreateFromCurves i rt normal l) = Some (normal, l)"
| "created _ = None"

definition created_lines :: "event list \<Rightarrow> (XYZ \<times> line) list" where
  "created_lines evs = List.map_filter created evs"

fun line_start :: "line \<Rightarrow> XYZ" where
  "line_start (Line p q) = p"

fun line_end :: "line \<Rightarrow> XYZ" where
  "line_end (Line p q) = q"

subsection \<open>The calls of a placement, in the order of the source\<close>

text \<open>
  The first exception in a list of call results, if there is one.
\<close>

fun first_raised :: "string option list \<Rightarrow> string option" where
  "first_raised [] = None"
| "first_raised (None # rs) = first_raised rs"
| "first_raised (Some e # rs) = Some e"

text \<open>The results of the two calls of every iteration of a loop, iteration by iteration.\<close>

definition bar_results ::
  "host \<Rightarrow> element \<Rightarrow> RebarBarType \<Rightarrow> XYZ \<Rightarrow> (XYZ \<times> XYZ) list \<Rightarrow> string option list" where
  "bar_results h el rt normal ends =
     concat (map (\<lambda>(p, q). [Line_CreateBound h p q,
                            Rebar_CreateFromCurves h el rt normal (Line p q)]) ends)"

text \<open>
  The results of all the calls that \<^verbatim>\<open>place_rebars\<close> makes for an element when none of
  them raises, in the order of the source text: the bounding box, the two spacings, the
  start of the transaction, then for each direction \<^verbatim>\<open>range\<close> and the calls of its
  iterations, then the commit. For an element without a bounding box the function
  returns after the first call.
\<close>

definition raised_in_order ::
  "host \<Rightarrow> element \<Rightarrow> RebarBarType \<Rightarrow> int \<Rightarrow> int \<Rightarrow> string option list" where
  "raised_in_order h el rt vertical horizontal =
     get_BoundingBox_raises h el #
     (case BoundingBox el of
        None \<Rightarrow> []
      | Some bbox \<Rightarrow>
          [v_spacing_raises h bbox vertical, h_spacing_raises h bbox horizontal,
           Transaction_Start h el, range_raises h vertical] @
          bar_results h el rt BasisX (map (vertical_ends bbox vertical) [0..<nat vertical]) @
          [range_raises h horizontal] @
          bar_results h el rt BasisZ (map (horizontal_ends bbox horizontal) [0..<nat horizontal]) @
          [Transaction_Commit h el])"

subsection \<open>Objects for the examples\<close>

text \<open>
  An instance of the built-ins, for the examples: whitespace is the space and the
  characters 0x09 to 0x0D, and a number is an optional sign followed by at least one
  decimal digit, with whitespace around it ignored. This is \<^verbatim>\<open>strip\<close>, \<^verbatim>\<open>split\<close>
  and \<^verbatim>\<open>int\<close> of Python 2 on byte strings; on the strings of the examples (digits,
  letters, signs and spaces) every Python engine gives the same results.
\<close>

definition ascii_space :: "char \<Rightarrow> bool" where
  "ascii_space c = (c \<in> set [CHR '' '', CHR 0x09, CHR 0x0A, CHR 0x0B, CHR 0x0C, CHR 0x0D])"

definition ascii_strip :: "string \<Rightarrow> string" where
  "ascii_strip s = rev (dropWhile ascii_space (rev (dropWhile ascii_space s)))"

fun split_ws :: "string \<Rightarrow> string \<Rightarrow> string list" where
  "split_ws part [] = (if part = [] then [] else [part])"
| "split_ws part (c # cs) =
     (if ascii_space c then (if part = [] then split_ws [] cs else part # split_ws [] cs)
      else split_ws (part @ [c]) cs)"

definition ascii_split :: "string \<Rightarrow> string list" where
  "ascii_split s = split_ws [] s"

definition ascii_digit :: "char \<Rightarrow> bool" where
  "ascii_digit c = (48 \<le> (of_char c :: nat) \<and> (of_char c :: nat) \<le> 57)"

definition digit_val :: "char \<Rightarrow> int" where
  "digit_val c = int (of_char c) - 48"

definition ascii_digits :: "string \<Rightarrow> int option" where
  "ascii_digits s =
     (if s \<noteq> [] \<and> list_all ascii_digit s
      then Some (foldl (\<lambda>a c. 10 * a + digit_val c) 0 s)
      else None)"

fun signed_digits :: "string \<Rightarrow> int option" where
  "signed_digits [] = None"
| "signed_digits (c # cs) =
     (if c = CHR ''+'' then ascii_digits cs
      else if c = CHR ''-'' then map_option uminus (ascii_digits cs)
      else ascii_digits (c # cs))"

definition ascii_int :: "string \<Rightarrow> int option" where
  "ascii_int s = signed_digits (ascii_strip s)"

definition ascii_builtins :: builtins where
  "ascii_builtins = \<lparr>str_strip = ascii_strip, str_split = ascii_split, int_str = ascii_int\<rparr>"

text \<open>
  The bounding box of the specification's example, a bar type, and four elements: a
  column, a door (a family instance that is not structural), a floor without a bounding
  box, and a slab whose height is twice the cover, so that its vertical curves have no
  length.
\<close>

definition ex_box :: BoundingBoxXYZ where
  "ex_box = \<lparr>Min_xyz = \<lparr>X = 0, Y = 0, Z = 0\<rparr>, Max_xyz = \<lparr>X = 1, Y = 1, Z = 2\<rparr>\<rparr>"

definition ex_type :: RebarBarType where
  "ex_type = \<lparr>type_Id = 7, SYMBOL_NAME_PARAM = Some ''D13''\<rparr>"

definition ex_column :: element where
  "ex_column = \<lparr>Id_el = 101, cls = FamilyInstance Column, BoundingBox = Some ex_box\<rparr>"

definition ex_door :: element where
  "ex_door = \<lparr>Id_el = 102, cls = FamilyInstance NonStructural, BoundingBox = Some ex_box\<rparr>"

definition ex_floor :: element where
  "ex_floor = \<lparr>Id_el = 103, cls = Floor, BoundingBox = None\<rparr>"

definition ex_slab :: element where
  "ex_slab =
     \<lparr>Id_el = 104, cls = Floor,
      BoundingBox = Some \<lparr>Min_xyz = \<lparr>X = 0, Y = 0, Z = 0\<rparr>, Max_xyz = \<lparr>X = 1, Y = 1, Z = 0.08\<rparr>\<rparr>\<rparr>"

text \<open>
  A host that refuses a curve without length and a family instance that is not
  structural, and lets every other call return.
\<close>

definition ex_host :: host where
  "ex_host =
     \<lparr>get_BoundingBox_raises = (\<lambda>el. None),
      float_div_raises = (\<lambda>a n. None),
      Transaction_Start = (\<lambda>el. None),
      range_raises = (\<lambda>n. None),
      Line_CreateBound = (\<lambda>p q. if p = q then Some ''curve too short'' else None),
      Rebar_CreateFromCurves =
        (\<lambda>el rt normal l.
           if cls el = FamilyInstance NonStructural then Some ''not a valid host'' else None),
      Transaction_Commit = (\<lambda>el. None)\<rparr>"

section \<open>Properties of the renaming command\<close>

subsection \<open>The retry loop\<close>

lemma stars_shift: "(nm @ ''*'') @ replicate j CHR ''*'' = nm @ replicate (Suc j) CHR ''*''"
  by simp

lemma stars_map:
  "map (\<lambda>j. nm @ replicate j CHR ''*'') [0..<Suc n] =
      nm # map (\<lambda>j. (nm @ ''*'') @ replicate j CHR ''*'') [0..<n]"
proof -
  have "[0..<Suc n] = 0 # map Suc [0..<n]"
    by (simp add: upt_rec[of 0 "Suc n"] map_Suc_upt del: upt_Suc)
  then show ?thesis by (simp add: comp_def del: upt_Suc)
qed

lemma rename_attempts_first:
  "k < n \<Longrightarrow> (\<forall>j<k. rejects d v (nm @ replicate j CHR ''*'')) \<Longrightarrow>
   \<not> rejects d v (nm @ replicate k CHR ''*'') \<Longrightarrow>
   rename_attempts rejects n d v old_name nm =
     (d(v := nm @ replicate k CHR ''*''),
      [rename_line old_name (nm @ replicate k CHR ''*'')],
      map (\<lambda>j. nm @ replicate j CHR ''*'') [0..<Suc k])"
proof (induction k arbitrary: n nm)
  case 0
  then obtain m where n: "n = Suc m" by (cases n) auto
  have "\<not> rejects d v nm" using "0.prems"(3) by simp
  then have "rename_attempts rejects (Suc m) d v old_name nm =
      (d(v := nm), [rename_line old_name nm], [nm])"
    by (simp add: set_Name_def)
  then show ?case by (simp only: n replicate.simps append_Nil2 upt_rec[of 0 "Suc 0"] upt_rec[of "Suc 0" "Suc 0"] list.map lessI less_irrefl if_True if_False)
next
  case (Suc k)
  then obtain m where n: "n = Suc m" by (cases n) auto
  have r0: "rejects d v nm" using Suc.prems(2)[rule_format, of 0] by simp
  have km: "k < m" using Suc.prems(1) n by simp
  have rj: "\<forall>j<k. rejects d v ((nm @ ''*'') @ replicate j CHR ''*'')"
  proof (intro allI impI)
    fix j assume "j < k"
    then show "rejects d v ((nm @ ''*'') @ replicate j CHR ''*'')"
      unfolding stars_shift using Suc.prems(2)[rule_format, of "Suc j"] by simp
  qed
  have nk: "\<not> rejects d v ((nm @ ''*'') @ replicate k CHR ''*'')"
    unfolding stars_shift using Suc.prems(3) .
  have ih: "rename_attempts rejects m d v old_name (nm @ ''*'') =
     (d(v := (nm @ ''*'') @ replicate k CHR ''*''),
      [rename_line old_name ((nm @ ''*'') @ replicate k CHR ''*'')],
      map (\<lambda>j. (nm @ ''*'') @ replicate j CHR ''*'') [0..<Suc k])"
    by (rule Suc.IH[OF km rj nk])
  have "rename_attempts rejects (Suc m) d v old_name nm =
     (d(v := (nm @ ''*'') @ replicate k CHR ''*''),
      [rename_line old_name ((nm @ ''*'') @ replicate k CHR ''*'')],
      nm # map (\<lambda>j. (nm @ ''*'') @ replicate j CHR ''*'') [0..<Suc k])"
    using r0 by (simp only: rename_attempts.simps set_Name_def if_True option.case ih prod.case)
  then show ?case unfolding n stars_map[of nm "Suc k"] stars_shift .
qed

lemma rename_attempts_exhaust:
  "(\<forall>j<n. rejects d v (nm @ replicate j CHR ''*'')) \<Longrightarrow>
   rename_attempts rejects n d v old_name nm =
     (d, [], map (\<lambda>j. nm @ replicate j CHR ''*'') [0..<n])"
proof (induction n arbitrary: nm)
  case 0
  show ?case by simp
next
  case (Suc n)
  have r0: "rejects d v nm" using Suc.prems[rule_format, of 0] by simp
  have rj: "\<forall>j<n. rejects d v ((nm @ ''*'') @ replicate j CHR ''*'')"
  proof (intro allI impI)
    fix j assume "j < n"
    then show "rejects d v ((nm @ ''*'') @ replicate j CHR ''*'')"
      unfolding stars_shift using Suc.prems[rule_format, of "Suc j"] by simp
  qed
  have "rename_attempts rejects (Suc n) d v old_name nm =
     (d, [], nm # map (\<lambda>j. (nm @ ''*'') @ replicate j CHR ''*'') [0..<n])"
    using r0 by (simp only: rename_attempts.simps set_Name_def if_True option.case Suc.IH[OF rj] prod.case)
  then show ?case unfolding stars_map[of nm n] .
qed

lemma rename_attempts_other:
  "w \<noteq> v \<Longrightarrow> fst (rename_attempts rejects n d w old_name nm) v = d v"
  by (induction n arbitrary: nm) (simp_all add: set_Name_def case_prod_beta)

lemma rename_view_other: "w \<noteq> v \<Longrightarrow> fst (rename_view rejects r d w) v = d v"
  by (simp add: rename_view_def rename_view_trace_def Let_def case_prod_beta rename_attempts_other)

lemma rename_views_other: "v \<notin> set vs \<Longrightarrow> fst (rename_views rejects r vs d) v = d v"
  by (induction vs arbitrary: d) (simp_all add: case_prod_beta rename_view_other)

lemma rename_views_append:
  "rename_views rejects r (xs @ ys) d =
     (case rename_views rejects r xs d of
        (d1, out1) \<Rightarrow> (case rename_views rejects r ys d1 of (d2, out2) \<Rightarrow> (d2, out1 @ out2)))"
  by (induction xs arbitrary: d) (simp_all add: case_prod_beta)

subsection \<open>The claims\<close>

text \<open>
  Claim C1. Let a view \<open>v\<close> of the selection be reached by the loop in the document
  \<open>d1\<close> (the views before it, \<open>pre\<close>, already processed). If the candidate name
  \<open>prefix + old_name.replace(find, replace) + suffix\<close> does not collide there with the
  name of another view, then after the whole procedure the name of \<open>v\<close> is exactly that
  candidate, computed from the name \<open>v\<close> had at the start. The selection holds each view
  once.
\<close>

theorem rename_unique_candidate:
  assumes "distinct (pre @ v # post)"
    and "\<not> duplicate_name sibs (fst (rename_views (duplicate_name sibs) r pre d)) v
            (rule_prefix r @ py_replace (d v) (rule_find r) (rule_replace r) @ rule_suffix r)"
  shows "fst (rename_views (duplicate_name sibs) r (pre @ v # post) d) v =
           rule_prefix r @ py_replace (d v) (rule_find r) (rule_replace r) @ rule_suffix r"
proof -
  let ?rej = "duplicate_name sibs"
  obtain d1 out1 where p: "rename_views ?rej r pre d = (d1, out1)"
    by (cases "rename_views ?rej r pre d")
  have vpre: "v \<notin> set pre" and vpost: "v \<notin> set post" using assms(1) by auto
  have old: "d1 v = d v" using rename_views_other[OF vpre, of ?rej r d] p by simp
  have acc: "\<not> ?rej d1 v (new_name r (d1 v) @ replicate 0 CHR ''*'')"
    using assms(2) p old by (simp add: new_name_def)
  have att: "rename_attempts ?rej 20 d1 v (d1 v) (new_name r (d1 v)) =
      (d1(v := new_name r (d1 v)), [rename_line (d1 v) (new_name r (d1 v))],
       [new_name r (d1 v)])"
    using rename_attempts_first[of 0 20 ?rej d1 v "new_name r (d1 v)" "d1 v"] acc by simp
  have one: "fst (rename_view ?rej r d1 v) = d1(v := new_name r (d v))"
    using att unfolding old by (simp add: rename_view_def rename_view_trace_def Let_def old)
  obtain d2 out2 where q: "rename_view ?rej r d1 v = (d2, out2)"
    by (cases "rename_view ?rej r d1 v")
  have d2: "d2 v = new_name r (d v)" using one q by simp
  have "fst (rename_views ?rej r (pre @ v # post) d) = fst (rename_views ?rej r post d2)"
    by (simp add: rename_views_append p q case_prod_beta)
  then have "fst (rename_views ?rej r (pre @ v # post) d) v = d2 v"
    using rename_views_other[OF vpost, of ?rej r d2] by simp
  then show ?thesis using d2 by (simp add: new_name_def)
qed

text \<open>
  The rule \<open>prefix = "L-"\<close>, \<open>find = "FloorPlan"\<close>, \<open>replace = "Level"\<close>, empty suffix, on
  the view named \<open>FloorPlan 1\<close>: the name becomes \<open>L-Level 1\<close>.
\<close>

theorem rename_unique_candidate_witness:
  "distinct ([] @ (1::nat) # [2]) \<and>
   \<not> duplicate_name [1, 2, 3]
       (fst (rename_views (duplicate_name [1, 2, 3])
               \<lparr>rule_prefix = ''L-'', rule_find = ''FloorPlan'', rule_replace = ''Level'',
                 rule_suffix = ''''\<rparr> []
               ((\<lambda>_. ''Section A'')(1 := ''FloorPlan 1'', 2 := ''FloorPlan 2''))))
       1 ''L-Level 1'' \<and>
   fst (rename_views (duplicate_name [1, 2, 3])
          \<lparr>rule_prefix = ''L-'', rule_find = ''FloorPlan'', rule_replace = ''Level'',
            rule_suffix = ''''\<rparr> ([] @ 1 # [2])
          ((\<lambda>_. ''Section A'')(1 := ''FloorPlan 1'', 2 := ''FloorPlan 2''))) 1 = ''L-Level 1''"
  using rename_unique_candidate [of "[]" 1 "[2]" "[1, 2, 3]"
      "\<lparr>rule_prefix = ''L-'', rule_find = ''FloorPlan'', rule_replace = ''Level'',
        rule_suffix = ''''\<rparr>"
      "(\<lambda>_. ''Section A'')(1 := ''FloorPlan 1'', 2 := ''FloorPlan 2'')"]
  by (simp add: duplicate_name_def py_replace_def)

text \<open>
  Claim C3. For a view \<open>v\<close> with the candidate \<open>c = new_name r (d v)\<close>, attempt number
  \<open>j\<close> of the procedure (counted from 0) hands the setter \<open>c\<close> followed by \<open>j\<close> sentinel
  characters \<open>*\<close>: one more per failed attempt, in order. If attempt \<open>k < 20\<close> is the first
  the host accepts, exactly the attempts \<open>0..k\<close> are made; the body of the loop leaves the
  view under the name of attempt \<open>k\<close> and prints that name; the loop over the views goes
  on from that document with that line first; and the command run on that view alone
  ends with that name in the document and that line between the start and the commit of
  the transaction. If the host rejects all of the attempts \<open>0..19\<close>, exactly those 20
  attempts are made, nothing is printed and the document is unchanged.
\<close>

theorem rename_retry_sentinel:
  "(k < 20 \<and> (\<forall>j<k. rejects d v (new_name r (d v) @ replicate j CHR ''*'')) \<and>
      \<not> rejects d v (new_name r (d v) @ replicate k CHR ''*'')
    \<longrightarrow> rename_view_trace rejects r d v =
          (d(v := new_name r (d v) @ replicate k CHR ''*''),
           [rename_line (d v) (new_name r (d v) @ replicate k CHR ''*'')],
           map (\<lambda>j. new_name r (d v) @ replicate j CHR ''*'') [0..<Suc k]) \<and>
        rename_view rejects r d v =
          (d(v := new_name r (d v) @ replicate k CHR ''*''),
           [rename_line (d v) (new_name r (d v) @ replicate k CHR ''*'')]) \<and>
        rename_views rejects r (v # vs) d =
          (case rename_views rejects r vs (d(v := new_name r (d v) @ replicate k CHR ''*'')) of
             (d2, out2) \<Rightarrow>
               (d2, rename_line (d v) (new_name r (d v) @ replicate k CHR ''*'') # out2)) \<and>
        (read_rule user_inputs = Inr r \<longrightarrow>
           rename_script rejects [ViewElement v] picked user_inputs d =
             (Completed, d(v := new_name r (d v) @ replicate k CHR ''*''),
              [Start ''py-Rename Views'',
               Print (rename_line (d v) (new_name r (d v) @ replicate k CHR ''*'')),
               Commit, Print (replicate 50 CHR ''-''), Print ''Done''])))
   \<and> ((\<forall>j<20. rejects d v (new_name r (d v) @ replicate j CHR ''*''))
    \<longrightarrow> rename_view_trace rejects r d v =
          (d, [], map (\<lambda>j. new_name r (d v) @ replicate j CHR ''*'') [0..<20]) \<and>
        rename_view rejects r d v = (d, []))"
proof (intro conjI impI)
  let ?c = "new_name r (d v)"
  assume a: "k < 20 \<and> (\<forall>j<k. rejects d v (?c @ replicate j CHR ''*'')) \<and>
      \<not> rejects d v (?c @ replicate k CHR ''*'')"
  let ?n = "?c @ replicate k CHR ''*''"
  have k: "k < 20" and rj: "\<forall>j<k. rejects d v (?c @ replicate j CHR ''*'')"
    and ac: "\<not> rejects d v ?n"
    using a by simp_all
  show t: "rename_view_trace rejects r d v =
      (d(v := ?n), [rename_line (d v) ?n], map (\<lambda>j. ?c @ replicate j CHR ''*'') [0..<Suc k])"
    unfolding rename_view_trace_def Let_def
    using rename_attempts_first[of k 20 rejects d v ?c "d v"] k rj ac by simp
  show one: "rename_view rejects r d v = (d(v := ?n), [rename_line (d v) ?n])"
    unfolding rename_view_def t by simp
  show "rename_views rejects r (v # vs) d =
      (case rename_views rejects r vs (d(v := ?n)) of
         (d2, out2) \<Rightarrow> (d2, rename_line (d v) ?n # out2))"
    by (simp add: one)
  assume rr: "read_rule user_inputs = Inr r"
  show "rename_script rejects [ViewElement v] picked user_inputs d =
      (Completed, d(v := ?n),
       [Start ''py-Rename Views'', Print (rename_line (d v) ?n),
        Commit, Print (replicate 50 CHR ''-''), Print ''Done''])"
    by (simp add: rename_script_def selected_views_def List.map_filter_simps rr one)
next
  let ?c = "new_name r (d v)"
  assume a: "\<forall>j<20. rejects d v (?c @ replicate j CHR ''*'')"
  show t: "rename_view_trace rejects r d v =
      (d, [], map (\<lambda>j. ?c @ replicate j CHR ''*'') [0..<20])"
    unfolding rename_view_trace_def Let_def
    using rename_attempts_exhaust[of 20 rejects d v ?c "d v"] a by simp
  show "rename_view rejects r d v = (d, [])"
    unfolding rename_view_def t by simp
qed

text \<open>
  View 1, named \<open>Plan\<close>, with the rule \<open>Plan \<rightarrow> A\<close>, and two siblings named \<open>A\<close> and
  \<open>A*\<close>: the third attempt, \<open>A**\<close>, succeeds. A host that rejects every name: 20
  attempts, and the view keeps its name.
\<close>

theorem rename_retry_sentinel_witness:
  "duplicate_name [1, 2, 3] ((\<lambda>_. ''Roof'')(1 := ''Plan'', 2 := ''A'', 3 := ''A*'')) 1 ''A'' \<and>
   duplicate_name [1, 2, 3] ((\<lambda>_. ''Roof'')(1 := ''Plan'', 2 := ''A'', 3 := ''A*'')) 1 ''A*'' \<and>
   \<not> duplicate_name [1, 2, 3] ((\<lambda>_. ''Roof'')(1 := ''Plan'', 2 := ''A'', 3 := ''A*'')) 1 ''A**'' \<and>
   rename_view_trace (duplicate_name [1, 2, 3])
       \<lparr>rule_prefix = '''', rule_find = ''Plan'', rule_replace = ''A'', rule_suffix = ''''\<rparr>
       ((\<lambda>_. ''Roof'')(1 := ''Plan'', 2 := ''A'', 3 := ''A*'')) 1 =
     (((\<lambda>_. ''Roof'')(1 := ''Plan'', 2 := ''A'', 3 := ''A*''))(1 := ''A**''),
      [''Plan -> A**''], [''A'', ''A*'', ''A**'']) \<and>
   rename_view (duplicate_name [1, 2, 3])
       \<lparr>rule_prefix = '''', rule_find = ''Plan'', rule_replace = ''A'', rule_suffix = ''''\<rparr>
       ((\<lambda>_. ''Roof'')(1 := ''Plan'', 2 := ''A'', 3 := ''A*'')) 1 =
     (((\<lambda>_. ''Roof'')(1 := ''Plan'', 2 := ''A'', 3 := ''A*''))(1 := ''A**''),
      [''Plan -> A**'']) \<and>
   rename_script (duplicate_name [1, 2, 3]) [ViewElement 1] None
       [''prefix'' \<mapsto> '''', ''find'' \<mapsto> ''Plan'', ''replace'' \<mapsto> ''A'', ''suffix'' \<mapsto> '''']
       ((\<lambda>_. ''Roof'')(1 := ''Plan'', 2 := ''A'', 3 := ''A*'')) =
     (Completed, ((\<lambda>_. ''Roof'')(1 := ''Plan'', 2 := ''A'', 3 := ''A*''))(1 := ''A**''),
      [Start ''py-Rename Views'', Print ''Plan -> A**'', Commit,
       Print (replicate 50 CHR ''-''), Print ''Done'']) \<and>
   rename_view_trace (\<lambda>_ _ _. True)
       \<lparr>rule_prefix = '''', rule_find = ''Plan'', rule_replace = ''A'', rule_suffix = ''''\<rparr>
       (\<lambda>_. ''Plan'') 1 =
     (\<lambda>_. ''Plan'', [], map (\<lambda>j. ''A'' @ replicate j CHR ''*'') [0..<20]) \<and>
   rename_view (\<lambda>_ _ _. True)
       \<lparr>rule_prefix = '''', rule_find = ''Plan'', rule_replace = ''A'', rule_suffix = ''''\<rparr>
       (\<lambda>_. ''Plan'') 1 = (\<lambda>_. ''Plan'', [])"
proof -
  let ?d = "(\<lambda>_. ''Roof'')(1 := ''Plan'', 2 := ''A'', 3 := ''A*'') :: doc"
  let ?r = "\<lparr>rule_prefix = '''', rule_find = ''Plan'', rule_replace = ''A'', rule_suffix = ''''\<rparr>"
  let ?ui = "[''prefix'' \<mapsto> '''', ''find'' \<mapsto> ''Plan'', ''replace'' \<mapsto> ''A'', ''suffix'' \<mapsto> '''']"
  have c: "new_name ?r (?d 1) = ''A''" by (simp add: new_name_def py_replace_def)
  have c': "new_name ?r ((\<lambda>_. ''Plan'') (1::nat)) = ''A''"
    by (simp add: new_name_def py_replace_def)
  have o: "?d 1 = ''Plan''" by simp
  have c0: "new_name ?r ''Plan'' = ''A''" by (simp add: new_name_def py_replace_def)
  have r0: "duplicate_name [1, 2, 3] ?d 1 ''A''" by (simp add: duplicate_name_def)
  have r1: "duplicate_name [1, 2, 3] ?d 1 ''A*''" by (simp add: duplicate_name_def)
  have a2: "\<not> duplicate_name [1, 2, 3] ?d 1 ''A**''" by (simp add: duplicate_name_def)
  have two: "[0..<Suc 2] = [0, 1, 2]" by (simp add: upt_rec)
  have st: "''A'' @ replicate 2 CHR ''*'' = ''A**''" by (simp add: numeral_2_eq_2)
  have h: "(2::nat) < 20 \<and>
      (\<forall>j<2. duplicate_name [1, 2, 3] ?d 1 (new_name ?r (?d 1) @ replicate j CHR ''*'')) \<and>
      \<not> duplicate_name [1, 2, 3] ?d 1 (new_name ?r (?d 1) @ replicate 2 CHR ''*'')"
    unfolding c st using r0 r1 a2 by (simp add: numeral_2_eq_2 less_Suc_eq)
  have rr: "read_rule ?ui = Inr ?r" by (simp add: read_rule_def form_value_def)
  note t = rename_retry_sentinel [where k = 2 and rejects = "duplicate_name [1, 2, 3]"
      and d = ?d and v = 1 and r = ?r and user_inputs = ?ui and picked = None,
      THEN conjunct1, THEN mp, OF h]
  have ln: "rename_line ''Plan'' ''A**'' = ''Plan -> A**''" by (simp add: rename_line_def)
  have mps: "map (\<lambda>j. ''A'' @ replicate j CHR ''*'') [0, 1, 2] = [''A'', ''A*'', ''A**'']"
    by (simp add: numeral_2_eq_2)
  have s1: "rename_view_trace (duplicate_name [1, 2, 3]) ?r ?d 1 =
      (?d(1 := ''A**''), [''Plan -> A**''], [''A'', ''A*'', ''A**''])"
    using t [THEN conjunct1] unfolding o c0 st two ln mps .
  have s2: "rename_view (duplicate_name [1, 2, 3]) ?r ?d 1 = (?d(1 := ''A**''), [''Plan -> A**''])"
    using t [THEN conjunct2, THEN conjunct1] unfolding o c0 st ln .
  have s3: "rename_script (duplicate_name [1, 2, 3]) [ViewElement 1] None ?ui ?d =
      (Completed, ?d(1 := ''A**''),
       [Start ''py-Rename Views'', Print ''Plan -> A**'', Commit,
        Print (replicate 50 CHR ''-''), Print ''Done''])"
    using t [THEN conjunct2, THEN conjunct2, THEN conjunct2, THEN mp, OF rr]
    unfolding o c0 st ln .
  have g: "\<forall>j<20. (\<lambda>_ _ _. True) (\<lambda>_. ''Plan'') (1::nat)
      (new_name ?r ((\<lambda>_. ''Plan'') (1::nat)) @ replicate j CHR ''*'')"
    by simp
  note u = rename_retry_sentinel [where rejects = "\<lambda>_ _ _. True" and d = "\<lambda>_. ''Plan''"
      and v = 1 and r = ?r, THEN conjunct2, THEN mp, OF g]
  have f1: "rename_view_trace (\<lambda>_ _ _. True) ?r (\<lambda>_. ''Plan'') 1 =
      (\<lambda>_. ''Plan'', [], map (\<lambda>j. ''A'' @ replicate j CHR ''*'') [0..<20])"
    using u [THEN conjunct1] unfolding c0 .
  have f2: "rename_view (\<lambda>_ _ _. True) ?r (\<lambda>_. ''Plan'') 1 = (\<lambda>_. ''Plan'', [])"
    using u [THEN conjunct2] .
  show ?thesis
    by (intro conjI) (rule r0, rule r1, rule a2, rule s1, rule s2, rule s3, rule f1, rule f2)
qed

text \<open>
  Claim C7. When the host rejects all 20 attempts for a view, the body of the loop returns
  the document it was given (the view keeps its original name) and prints nothing; the
  loop goes on with the remaining views exactly as if it had started there; and a command
  run on that view alone completes with the transaction's start and commit and the two
  closing lines as its only events: no alert, no line for the view, nothing raised.
\<close>

theorem rename_exhausted_silent:
  assumes "\<forall>j<20. rejects d v (new_name r (d v) @ replicate j CHR ''*'')"
  shows "rename_view rejects r d v = (d, []) \<and>
         rename_views rejects r (v # vs) d = rename_views rejects r vs d \<and>
         (read_rule user_inputs = Inr r \<longrightarrow>
            rename_script rejects [ViewElement v] picked user_inputs d =
              (Completed, d,
               [Start ''py-Rename Views'', Commit, Print (replicate 50 CHR ''-''),
                Print ''Done'']))"
proof -
  have one: "rename_view rejects r d v = (d, [])"
    using rename_attempts_exhaust[of 20 rejects d v "new_name r (d v)" "d v"] assms
    by (simp add: rename_view_def rename_view_trace_def Let_def)
  have all: "rename_views rejects r (v # vs) d = rename_views rejects r vs d"
    by (simp add: one case_prod_beta)
  have scr: "read_rule user_inputs = Inr r \<Longrightarrow>
      rename_script rejects [ViewElement v] picked user_inputs d =
        (Completed, d,
         [Start ''py-Rename Views'', Commit, Print (replicate 50 CHR ''-''), Print ''Done''])"
    by (simp add: rename_script_def selected_views_def List.map_filter_simps one)
  show ?thesis using one all scr by blast
qed

text \<open>
  View 1, named \<open>Plan\<close>, with the rule \<open>Plan \<rightarrow> A\<close>, among twenty siblings named \<open>A\<close>,
  \<open>A*\<close>, ..., \<open>A\<close> followed by 19 sentinels.
\<close>

theorem rename_exhausted_silent_witness:
  "rename_view (duplicate_name [1..<22])
       \<lparr>rule_prefix = '''', rule_find = ''Plan'', rule_replace = ''A'', rule_suffix = ''''\<rparr>
       (\<lambda>w. if w = 1 then ''Plan'' else ''A'' @ replicate (w - 2) CHR ''*'') 1 =
     (\<lambda>w. if w = 1 then ''Plan'' else ''A'' @ replicate (w - 2) CHR ''*'', []) \<and>
   rename_views (duplicate_name [1..<22])
       \<lparr>rule_prefix = '''', rule_find = ''Plan'', rule_replace = ''A'', rule_suffix = ''''\<rparr>
       (1 # [2]) (\<lambda>w. if w = 1 then ''Plan'' else ''A'' @ replicate (w - 2) CHR ''*'') =
     rename_views (duplicate_name [1..<22])
       \<lparr>rule_prefix = '''', rule_find = ''Plan'', rule_replace = ''A'', rule_suffix = ''''\<rparr>
       [2] (\<lambda>w. if w = 1 then ''Plan'' else ''A'' @ replicate (w - 2) CHR ''*'') \<and>
   rename_script (duplicate_name [1..<22]) [ViewElement 1] None
       [''prefix'' \<mapsto> '''', ''find'' \<mapsto> ''Plan'', ''replace'' \<mapsto> ''A'', ''suffix'' \<mapsto> '''']
       (\<lambda>w. if w = 1 then ''Plan'' else ''A'' @ replicate (w - 2) CHR ''*'') =
     (Completed, \<lambda>w. if w = 1 then ''Plan'' else ''A'' @ replicate (w - 2) CHR ''*'',
      [Start ''py-Rename Views'', Commit, Print (replicate 50 CHR ''-''), Print ''Done''])"
proof -
  let ?r = "\<lparr>rule_prefix = '''', rule_find = ''Plan'', rule_replace = ''A'', rule_suffix = ''''\<rparr>"
  let ?ui = "[''prefix'' \<mapsto> '''', ''find'' \<mapsto> ''Plan'', ''replace'' \<mapsto> ''A'', ''suffix'' \<mapsto> '''']"
  let ?d = "(\<lambda>w. if w = 1 then ''Plan'' else ''A'' @ replicate (w - 2) CHR ''*'') :: doc"
  have nn: "new_name ?r (?d 1) = ''A''" by (simp add: new_name_def py_replace_def)
  have h: "\<forall>j<20. duplicate_name [1..<22] ?d 1 (new_name ?r (?d 1) @ replicate j CHR ''*'')"
  proof (intro allI impI)
    fix j :: nat assume j: "j < 20"
    have "j + 2 \<in> set [1..<22] \<and> j + 2 \<noteq> 1 \<and> ?d (j + 2) = ''A'' @ replicate j CHR ''*''"
      using j by simp
    then show "duplicate_name [1..<22] ?d 1 (new_name ?r (?d 1) @ replicate j CHR ''*'')"
      unfolding nn duplicate_name_def list_ex_iff by blast
  qed
  have rr: "read_rule ?ui = Inr ?r" by (simp add: read_rule_def form_value_def)
  show ?thesis
    using rename_exhausted_silent [of "duplicate_name [1..<22]" ?d 1 ?r "[2]" ?ui None] h rr
    by blast
qed

text \<open>
  Claim C8. If the selection holds no view and the view picker returns nothing (\<open>None\<close>
  or an empty list), the command shows the alert and exits: that alert is the only event
  (no transaction is started) and the document is the one it was given.
\<close>

theorem rename_no_selection:
  assumes "selected_views sel_elem = []" and "picked = None \<or> picked = Some []"
  shows "rename_script rejects sel_elem picked user_inputs d =
           (Exited, d, [Alert ''No Views Selected. Please Try Again''])"
  using assms by (auto simp: rename_script_def)

text \<open>A selection of two elements that are not views, and an empty pick.\<close>

theorem rename_no_selection_witness:
  "selected_views [OtherElement, OtherElement] = [] \<and>
   rename_script (duplicate_name [1, 2]) [OtherElement, OtherElement] (Some [])
       [''prefix'' \<mapsto> ''L-''] (\<lambda>_. ''Plan'') =
     (Exited, \<lambda>_. ''Plan'', [Alert ''No Views Selected. Please Try Again''])"
proof -
  have h: "selected_views [OtherElement, OtherElement] = []"
    by (simp add: selected_views_def List.map_filter_simps)
  show ?thesis
    using h rename_no_selection [OF h, of "Some []" "duplicate_name [1, 2]"
        "[''prefix'' \<mapsto> ''L-'']" "\<lambda>_. ''Plan''"]
    by simp
qed

section \<open>Properties of the rebar placement command\<close>

subsection \<open>The loops of the placement\<close>

lemma create_rebars_events_subset:
  "set (snd (create_rebars h el rt normal ends)) \<subseteq> bar_call el rt normal ` set ends"
proof (induction ends)
  case Nil
  show ?case by simp
next
  case (Cons pq ends)
  obtain p q where pq: "pq = (p, q)" by (cases pq)
  show ?case using Cons.IH unfolding pq
    by (auto simp: case_prod_beta split: option.splits)
qed

lemma bar_call_eq:
  "bar_call el rt normal pq = CreateFromCurves (Id_el el) rt normal (Line (fst pq) (snd pq))"
  by (cases pq) simp

lemma create_rebars_no_commit: "Commit \<notin> set (snd (create_rebars h el rt normal ends))"
  using create_rebars_events_subset[of h el rt normal ends] by (auto simp: bar_call_eq)

lemma create_rebars_returned:
  "fst (create_rebars h el rt normal ends) = None \<Longrightarrow>
   snd (create_rebars h el rt normal ends) = map (bar_call el rt normal) ends"
proof (induction ends)
  case Nil
  show ?case by simp
next
  case (Cons pq ends)
  obtain p q where pq: "pq = (p, q)" by (cases pq)
  show ?case using Cons unfolding pq
    by (auto simp: case_prod_beta split: option.splits)
qed

lemma first_raised_append:
  "first_raised (rs @ rs') =
     (case first_raised rs of Some e \<Rightarrow> Some e | None \<Rightarrow> first_raised rs')"
  by (induction rs rule: first_raised.induct) simp_all

lemma create_rebars_first_raised:
  "fst (create_rebars h el rt normal ends) = first_raised (bar_results h el rt normal ends)"
proof (induction ends)
  case Nil
  show ?case by (simp add: bar_results_def)
next
  case (Cons pq ends)
  obtain p q where pq: "pq = (p, q)" by (cases pq)
  show ?case using Cons unfolding pq
    by (auto simp: bar_results_def case_prod_beta split: option.splits)
qed

text \<open>The transaction's body: what stops it, and its events.\<close>

lemma transaction_body_first_raised:
  "fst (transaction_body h el rt bbox vertical horizontal) =
     first_raised
       ([range_raises h vertical] @
        bar_results h el rt BasisX (map (vertical_ends bbox vertical) [0..<nat vertical]) @
        [range_raises h horizontal] @
        bar_results h el rt BasisZ (map (horizontal_ends bbox horizontal) [0..<nat horizontal]) @
        [Transaction_Commit h el])"
proof -
  let ?vs = "map (vertical_ends bbox vertical) [0..<nat vertical]"
  let ?hs = "map (horizontal_ends bbox horizontal) [0..<nat horizontal]"
  obtain r1 evs1 where c1: "create_rebars h el rt BasisX ?vs = (r1, evs1)"
    by (cases "create_rebars h el rt BasisX ?vs")
  obtain r2 evs2 where c2: "create_rebars h el rt BasisZ ?hs = (r2, evs2)"
    by (cases "create_rebars h el rt BasisZ ?hs")
  have f1: "first_raised (bar_results h el rt BasisX ?vs) = r1"
    using create_rebars_first_raised[of h el rt BasisX ?vs] c1 by simp
  have f2: "first_raised (bar_results h el rt BasisZ ?hs) = r2"
    using create_rebars_first_raised[of h el rt BasisZ ?hs] c2 by simp
  show ?thesis
    unfolding transaction_body_def c1 c2
    by (cases "range_raises h vertical"; cases r1; cases "range_raises h horizontal"; cases r2;
        cases "Transaction_Commit h el")
      (simp_all add: first_raised_append f1 f2)
qed

lemma transaction_body_events:
  "set (snd (transaction_body h el rt bbox vertical horizontal)) \<subseteq>
     bar_call el rt BasisX ` set (map (vertical_ends bbox vertical) [0..<nat vertical]) \<union>
     bar_call el rt BasisZ ` set (map (horizontal_ends bbox horizontal) [0..<nat horizontal]) \<union>
     {Commit}"
proof -
  let ?vs = "map (vertical_ends bbox vertical) [0..<nat vertical]"
  let ?hs = "map (horizontal_ends bbox horizontal) [0..<nat horizontal]"
  obtain r1 evs1 where c1: "create_rebars h el rt BasisX ?vs = (r1, evs1)"
    by (cases "create_rebars h el rt BasisX ?vs")
  obtain r2 evs2 where c2: "create_rebars h el rt BasisZ ?hs = (r2, evs2)"
    by (cases "create_rebars h el rt BasisZ ?hs")
  have s1: "set evs1 \<subseteq> bar_call el rt BasisX ` set ?vs"
    using create_rebars_events_subset[of h el rt BasisX ?vs] c1 by simp
  have s2: "set evs2 \<subseteq> bar_call el rt BasisZ ` set ?hs"
    using create_rebars_events_subset[of h el rt BasisZ ?hs] c2 by simp
  have "set (snd (transaction_body h el rt bbox vertical horizontal)) \<subseteq>
      set evs1 \<union> set evs2 \<union> {Commit}"
    unfolding transaction_body_def c1 c2
    by (cases "range_raises h vertical"; cases r1; cases "range_raises h horizontal"; cases r2;
        cases "Transaction_Commit h el")
      auto
  then show ?thesis using s1 s2 by blast
qed

lemma transaction_body_returned:
  assumes "fst (transaction_body h el rt bbox vertical horizontal) = None"
  shows "snd (transaction_body h el rt bbox vertical horizontal) =
           map (\<lambda>i. bar_call el rt BasisX (vertical_ends bbox vertical i)) [0..<nat vertical] @
           map (\<lambda>i. bar_call el rt BasisZ (horizontal_ends bbox horizontal i))
             [0..<nat horizontal] @
           [Commit]"
proof -
  let ?vs = "map (vertical_ends bbox vertical) [0..<nat vertical]"
  let ?hs = "map (horizontal_ends bbox horizontal) [0..<nat horizontal]"
  obtain r1 evs1 where c1: "create_rebars h el rt BasisX ?vs = (r1, evs1)"
    by (cases "create_rebars h el rt BasisX ?vs")
  obtain r2 evs2 where c2: "create_rebars h el rt BasisZ ?hs = (r2, evs2)"
    by (cases "create_rebars h el rt BasisZ ?hs")
  have all: "range_raises h vertical = None \<and> r1 = None \<and> range_raises h horizontal = None \<and>
      r2 = None \<and> Transaction_Commit h el = None"
    using assms unfolding transaction_body_def c1 c2
    by (cases "range_raises h vertical"; cases r1; cases "range_raises h horizontal"; cases r2;
        cases "Transaction_Commit h el")
      simp_all
  have e1: "evs1 = map (bar_call el rt BasisX) ?vs"
    using create_rebars_returned[of h el rt BasisX ?vs] c1 all by simp
  have e2: "evs2 = map (bar_call el rt BasisZ) ?hs"
    using create_rebars_returned[of h el rt BasisZ ?hs] c2 all by simp
  have "snd (transaction_body h el rt bbox vertical horizontal) = evs1 @ evs2 @ [Commit]"
    unfolding transaction_body_def c1 c2 using all by simp
  then show ?thesis unfolding e1 e2 by (simp add: comp_def)
qed

lemma transaction_body_stopped:
  assumes "fst (transaction_body h el rt bbox vertical horizontal) = Some e"
  shows "Commit \<notin> set (snd (transaction_body h el rt bbox vertical horizontal))"
proof -
  let ?vs = "map (vertical_ends bbox vertical) [0..<nat vertical]"
  let ?hs = "map (horizontal_ends bbox horizontal) [0..<nat horizontal]"
  obtain r1 evs1 where c1: "create_rebars h el rt BasisX ?vs = (r1, evs1)"
    by (cases "create_rebars h el rt BasisX ?vs")
  obtain r2 evs2 where c2: "create_rebars h el rt BasisZ ?hs = (r2, evs2)"
    by (cases "create_rebars h el rt BasisZ ?hs")
  have n1: "Commit \<notin> set evs1"
    using create_rebars_no_commit[of h el rt BasisX ?vs] c1 by simp
  have n2: "Commit \<notin> set evs2"
    using create_rebars_no_commit[of h el rt BasisZ ?hs] c2 by simp
  show ?thesis
    using assms n1 n2 unfolding transaction_body_def c1 c2
    by (cases "range_raises h vertical"; cases r1; cases "range_raises h horizontal"; cases r2;
        cases "Transaction_Commit h el")
      simp_all
qed

text \<open>The placement of one element.\<close>

lemma place_rebars_no_bbox:
  "get_BoundingBox_raises h el = None \<Longrightarrow> BoundingBox el = None \<Longrightarrow>
   place_rebars h el rt vertical horizontal = (False, [PrintSkipping (Id_el el)])"
  by (simp add: place_rebars_def place_rebars_try_def)

lemma place_rebars_cases:
  "place_rebars h el rt vertical horizontal =
     (case first_raised [get_BoundingBox_raises h el] of
        Some e \<Rightarrow> (False, [PrintFailed (Id_el el) e])
      | None \<Rightarrow>
          (case BoundingBox el of
             None \<Rightarrow> (False, [PrintSkipping (Id_el el)])
           | Some bbox \<Rightarrow>
               (case first_raised [v_spacing_raises h bbox vertical,
                        h_spacing_raises h bbox horizontal, Transaction_Start h el] of
                  Some e \<Rightarrow> (False, [PrintFailed (Id_el el) e])
                | None \<Rightarrow>
                    (case fst (transaction_body h el rt bbox vertical horizontal) of
                       Some e \<Rightarrow>
                         (False,
                          [Start ''Place Rebars''] @
                          snd (transaction_body h el rt bbox vertical horizontal) @
                          [RollBack, PrintFailed (Id_el el) e])
                     | None \<Rightarrow>
                         (True,
                          [Start ''Place Rebars''] @
                          snd (transaction_body h el rt bbox vertical horizontal))))))"
  unfolding place_rebars_def place_rebars_try_def
  by (auto split: option.splits prod.splits)

lemma raised_in_order_box:
  "BoundingBox el = Some bbox \<Longrightarrow>
   first_raised (raised_in_order h el rt vertical horizontal) =
     (case first_raised [get_BoundingBox_raises h el] of
        Some e \<Rightarrow> Some e
      | None \<Rightarrow>
          (case first_raised [v_spacing_raises h bbox vertical,
                   h_spacing_raises h bbox horizontal, Transaction_Start h el] of
             Some e \<Rightarrow> Some e
           | None \<Rightarrow> fst (transaction_body h el rt bbox vertical horizontal)))"
  unfolding raised_in_order_def transaction_body_first_raised
  by (cases "get_BoundingBox_raises h el"; cases "v_spacing_raises h bbox vertical";
      cases "h_spacing_raises h bbox horizontal"; cases "Transaction_Start h el")
    simp_all

lemma raised_in_order_no_box:
  "BoundingBox el = None \<Longrightarrow>
   first_raised (raised_in_order h el rt vertical horizontal) = get_BoundingBox_raises h el"
  unfolding raised_in_order_def by (cases "get_BoundingBox_raises h el") simp_all

lemma place_rebars_raised:
  assumes "first_raised (raised_in_order h el rt vertical horizontal) = Some e"
  shows "\<not> fst (place_rebars h el rt vertical horizontal) \<and>
         last (snd (place_rebars h el rt vertical horizontal)) = PrintFailed (Id_el el) e \<and>
         Commit \<notin> set (snd (place_rebars h el rt vertical horizontal))"
proof (cases "BoundingBox el")
  case None
  then show ?thesis
    using assms unfolding raised_in_order_no_box[OF None] place_rebars_cases
    by simp
next
  case (Some bbox)
  show ?thesis
    using assms transaction_body_stopped[of h el rt bbox vertical horizontal]
    unfolding raised_in_order_box[OF Some] place_rebars_cases Some
    by (auto split: option.splits)
qed

lemma place_rebars_iff:
  "fst (place_rebars h el rt vertical horizontal) \<longleftrightarrow>
     BoundingBox el \<noteq> None \<and> first_raised (raised_in_order h el rt vertical horizontal) = None"
proof (cases "BoundingBox el")
  case None
  then show ?thesis
    unfolding place_rebars_cases by (auto split: option.splits)
next
  case (Some bbox)
  show ?thesis
    unfolding raised_in_order_box[OF Some] place_rebars_cases Some
    by (auto split: option.splits)
qed

lemma place_rebars_success:
  assumes "fst (place_rebars h el rt vertical horizontal)"
  shows "\<exists>bbox. BoundingBox el = Some bbox \<and>
           snd (place_rebars h el rt vertical horizontal) =
             [Start ''Place Rebars''] @
             map (\<lambda>i. bar_call el rt BasisX (vertical_ends bbox vertical i)) [0..<nat vertical] @
             map (\<lambda>i. bar_call el rt BasisZ (horizontal_ends bbox horizontal i))
               [0..<nat horizontal] @
             [Commit]"
proof (cases "BoundingBox el")
  case None
  then show ?thesis using assms unfolding place_rebars_cases by (auto split: option.splits)
next
  case (Some bbox)
  have r: "fst (transaction_body h el rt bbox vertical horizontal) = None"
    and ev: "snd (place_rebars h el rt vertical horizontal) =
      [Start ''Place Rebars''] @ snd (transaction_body h el rt bbox vertical horizontal)"
    using assms unfolding place_rebars_cases Some by (auto split: option.splits)
  show ?thesis
    using Some ev transaction_body_returned[OF r] by simp
qed

lemma place_rebars_failure:
  assumes "\<not> fst (place_rebars h el rt vertical horizontal)"
  shows "Commit \<notin> set (snd (place_rebars h el rt vertical horizontal)) \<and>
         (last (snd (place_rebars h el rt vertical horizontal)) = PrintSkipping (Id_el el) \<or>
          (\<exists>e. last (snd (place_rebars h el rt vertical horizontal)) = PrintFailed (Id_el el) e))"
proof (cases "BoundingBox el")
  case None
  then show ?thesis unfolding place_rebars_cases by (auto split: option.splits)
next
  case (Some bbox)
  show ?thesis
    using assms transaction_body_stopped[of h el rt bbox vertical horizontal]
    unfolding place_rebars_cases Some
    by (auto split: option.splits)
qed

lemma place_all_count:
  "place_all h rt vertical horizontal els n =
     (n + length (filter (\<lambda>el. fst (place_rebars h el rt vertical horizontal)) els),
      concat (map (\<lambda>el. snd (place_rebars h el rt vertical horizontal)) els))"
  by (induction els arbitrary: n) (simp_all add: case_prod_beta)

lemma created_lines_append: "created_lines (xs @ ys) = created_lines xs @ created_lines ys"
  by (simp add: created_lines_def List.map_filter_def)

lemma created_lines_bar_calls:
  "created_lines (map (\<lambda>i. bar_call el rt normal (f i)) is) =
     map (\<lambda>i. (normal, Line (fst (f i)) (snd (f i)))) is"
proof -
  have "\<And>i. created (bar_call el rt normal (f i)) = Some (normal, Line (fst (f i)) (snd (f i)))"
    by (simp add: bar_call_eq)
  then show ?thesis by (induction "is") (simp_all add: created_lines_def List.map_filter_simps)
qed

lemma created_lines_success:
  assumes "fst (place_rebars h el rt vertical horizontal)" and "BoundingBox el = Some bbox"
  shows "created_lines (snd (place_rebars h el rt vertical horizontal)) =
           map (\<lambda>i. (BasisX, Line (fst (vertical_ends bbox vertical i))
                                 (snd (vertical_ends bbox vertical i)))) [0..<nat vertical] @
           map (\<lambda>i. (BasisZ, Line (fst (horizontal_ends bbox horizontal i))
                                 (snd (horizontal_ends bbox horizontal i)))) [0..<nat horizontal]"
proof -
  have ev: "snd (place_rebars h el rt vertical horizontal) =
             [Start ''Place Rebars''] @
             map (\<lambda>i. bar_call el rt BasisX (vertical_ends bbox vertical i)) [0..<nat vertical] @
             map (\<lambda>i. bar_call el rt BasisZ (horizontal_ends bbox horizontal i))
               [0..<nat horizontal] @
             [Commit]"
    using place_rebars_success[OF assms(1)] assms(2) by simp
  have s: "created_lines [Start ''Place Rebars''] = []" "created_lines [Commit] = []"
    by (simp_all add: created_lines_def List.map_filter_simps)
  show ?thesis
    unfolding ev created_lines_append created_lines_bar_calls s by simp
qed

subsection \<open>The geometry of the bars\<close>

lemma vertical_ends_coords:
  "X (fst (vertical_ends bbox vertical i)) =
     X (Min_xyz bbox) + SNI_COVER + of_nat i * v_spacing bbox vertical"
  "X (snd (vertical_ends bbox vertical i)) = X (fst (vertical_ends bbox vertical i))"
  "Y (fst (vertical_ends bbox vertical i)) = Y (Min_xyz bbox) + SNI_COVER"
  "Y (snd (vertical_ends bbox vertical i)) = Y (Min_xyz bbox) + SNI_COVER"
  "Z (fst (vertical_ends bbox vertical i)) = Z (Min_xyz bbox) + SNI_COVER"
  "Z (snd (vertical_ends bbox vertical i)) = Z (Max_xyz bbox) - SNI_COVER"
  by (simp_all add: vertical_ends_def Let_def)

lemma horizontal_ends_coords:
  "Z (fst (horizontal_ends bbox horizontal i)) =
     Z (Min_xyz bbox) + SNI_COVER + of_nat i * h_spacing bbox horizontal"
  "Z (snd (horizontal_ends bbox horizontal i)) = Z (fst (horizontal_ends bbox horizontal i))"
  "Y (fst (horizontal_ends bbox horizontal i)) = Y (Min_xyz bbox) + SNI_COVER"
  "Y (snd (horizontal_ends bbox horizontal i)) = Y (Min_xyz bbox) + SNI_COVER"
  "X (fst (horizontal_ends bbox horizontal i)) = X (Min_xyz bbox) + SNI_COVER"
  "X (snd (horizontal_ends bbox horizontal i)) = X (Max_xyz bbox) - SNI_COVER"
  by (simp_all add: horizontal_ends_def Let_def)

lemma created_lines_origin:
  "(n, l) \<in> set (created_lines evs) \<Longrightarrow> \<exists>i rt. CreateFromCurves i rt n l \<in> set evs"
proof (induction evs)
  case Nil
  then show ?case by (simp add: created_lines_def List.map_filter_simps)
next
  case (Cons ev evs)
  then show ?case
    by (cases ev) (auto simp: created_lines_def List.map_filter_simps)
qed

lemma place_rebars_bar_events:
  assumes "BoundingBox el = Some bbox"
    and "CreateFromCurves i t n l \<in> set (snd (place_rebars h el rt vertical horizontal))"
  shows "(\<exists>k. l = Line (fst (vertical_ends bbox vertical k)) (snd (vertical_ends bbox vertical k)))
       \<or> (\<exists>k. l = Line (fst (horizontal_ends bbox horizontal k))
                       (snd (horizontal_ends bbox horizontal k)))"
proof -
  let ?vs = "map (vertical_ends bbox vertical) [0..<nat vertical]"
  let ?hs = "map (horizontal_ends bbox horizontal) [0..<nat horizontal]"
  have "set (snd (place_rebars h el rt vertical horizontal)) \<subseteq>
      {Start ''Place Rebars'', RollBack} \<union> range (PrintFailed (Id_el el)) \<union>
      set (snd (transaction_body h el rt bbox vertical horizontal))"
    unfolding place_rebars_cases assms(1) by (auto split: option.splits)
  then have "CreateFromCurves i t n l \<in>
      set (snd (transaction_body h el rt bbox vertical horizontal))"
    using assms(2) by auto
  then have "CreateFromCurves i t n l \<in>
      bar_call el rt BasisX ` set ?vs \<union> bar_call el rt BasisZ ` set ?hs"
    using transaction_body_events[of h el rt bbox vertical horizontal] by auto
  then show ?thesis by (auto simp: bar_call_eq)
qed

subsection \<open>The example objects, evaluated\<close>

lemma ex_column_box: "BoundingBox ex_column = Some ex_box"
  by (simp add: ex_column_def)

lemma ex_place_column_1:
  "place_rebars ex_host ex_column ex_type 1 1 =
     (True,
      [Start ''Place Rebars'',
       CreateFromCurves 101 ex_type BasisX
         (Line \<lparr>X = 0.04, Y = 0.04, Z = 0.04\<rparr> \<lparr>X = 0.04, Y = 0.04, Z = 1.96\<rparr>),
       CreateFromCurves 101 ex_type BasisZ
         (Line \<lparr>X = 0.04, Y = 0.04, Z = 0.04\<rparr> \<lparr>X = 0.96, Y = 0.04, Z = 0.04\<rparr>),
       Commit])"
  by (simp add: place_rebars_def place_rebars_try_def transaction_body_def v_spacing_raises_def
      h_spacing_raises_def ex_host_def ex_column_def ex_box_def vertical_ends_def
      horizontal_ends_def v_spacing_def h_spacing_def SNI_COVER_def Let_def)

lemma ex_place_column_3:
  "place_rebars ex_host ex_column ex_type 3 1 =
     (True,
      [Start ''Place Rebars'',
       CreateFromCurves 101 ex_type BasisX
         (Line \<lparr>X = 0.04, Y = 0.04, Z = 0.04\<rparr> \<lparr>X = 0.04, Y = 0.04, Z = 1.96\<rparr>),
       CreateFromCurves 101 ex_type BasisX
         (Line \<lparr>X = 0.5, Y = 0.04, Z = 0.04\<rparr> \<lparr>X = 0.5, Y = 0.04, Z = 1.96\<rparr>),
       CreateFromCurves 101 ex_type BasisX
         (Line \<lparr>X = 0.96, Y = 0.04, Z = 0.04\<rparr> \<lparr>X = 0.96, Y = 0.04, Z = 1.96\<rparr>),
       CreateFromCurves 101 ex_type BasisZ
         (Line \<lparr>X = 0.04, Y = 0.04, Z = 0.04\<rparr> \<lparr>X = 0.96, Y = 0.04, Z = 0.04\<rparr>),
       Commit])"
  by (simp add: place_rebars_def place_rebars_try_def transaction_body_def v_spacing_raises_def
      h_spacing_raises_def ex_host_def ex_column_def ex_box_def vertical_ends_def
      horizontal_ends_def v_spacing_def h_spacing_def SNI_COVER_def Let_def upt_rec)

lemma ex_place_door:
  "place_rebars ex_host ex_door ex_type 1 1 =
     (False, [Start ''Place Rebars'', RollBack, PrintFailed 102 ''not a valid host''])"
  by (simp add: place_rebars_def place_rebars_try_def transaction_body_def v_spacing_raises_def
      h_spacing_raises_def ex_host_def ex_door_def ex_box_def vertical_ends_def
      horizontal_ends_def v_spacing_def h_spacing_def SNI_COVER_def Let_def)

lemma ex_place_floor:
  "place_rebars ex_host ex_floor ex_type 1 1 = (False, [PrintSkipping 103])"
  by (simp add: place_rebars_def place_rebars_try_def ex_floor_def ex_host_def)

lemma ex_place_slab:
  "place_rebars ex_host ex_slab ex_type 1 1 =
     (False, [Start ''Place Rebars'', RollBack, PrintFailed 104 ''curve too short''])"
  by (simp add: place_rebars_def place_rebars_try_def transaction_body_def v_spacing_raises_def
      h_spacing_raises_def ex_host_def ex_slab_def vertical_ends_def
      horizontal_ends_def v_spacing_def h_spacing_def SNI_COVER_def Let_def)

lemma ex_counts:
  "get_rebar_counts ascii_builtins (Some ''3'') = Inr (3, 3)"
  "get_rebar_counts ascii_builtins (Some ''3 5'') = Inr (3, 5)"
  "get_rebar_counts ascii_builtins (Some ''1'') = Inr (1, 1)"
  "get_rebar_counts ascii_builtins (Some ''0 -2'') = Inr (1, 1)"
  "get_rebar_counts ascii_builtins (Some ''abc'') = Inl (''Invalid input! Use format '3' or '3 5'' @ [CHR 0x27])"
  by code_simp+


lemma ex_selection:
  "get_valid_elements [Some ex_column] = Inr [ex_column]"
  "find_selected_type ''D13'' (zip (rebar_type_names [ex_type]) [ex_type]) = Some ex_type"
  "get_valid_elements [Some ex_door] = Inr [ex_door]"
  "get_valid_elements [Some ex_floor, Some ex_door, Some ex_slab, Some ex_column] =
     Inr [ex_floor, ex_door, ex_slab, ex_column]"
  by (simp_all add: get_valid_elements_def ex_floor_def ex_door_def ex_column_def ex_slab_def
      rebar_type_names_def ex_type_def)

subsection \<open>The claims\<close>




text \<open>
  Claim C5. An element without a bounding box is skipped: \<open>place_rebars\<close> returns
  \<open>False\<close>, its only event is the line that reports the skip, and no bar is created.
  Whichever call of the placement is the first to raise an exception \<open>e\<close> (the bounding
  box, a spacing, the start of the transaction, \<^verbatim>\<open>range\<close>, \<^verbatim>\<open>Line.CreateBound\<close>,
  \<^verbatim>\<open>Rebar.CreateFromCurves\<close> or the commit), \<open>place_rebars\<close> returns \<open>False\<close>, its last
  event is the line that reports \<open>e\<close> for that element, and nothing is committed; it
  returns \<open>True\<close> exactly when the element has a bounding box and no call raises. Two
  instances are spelled out on the host's calls: an exception of
  \<^verbatim>\<open>get_BoundingBox\<close>, and one of the first \<^verbatim>\<open>Line.CreateBound\<close>. The loop over the
  elements handles every element in turn, each on its own, and ends with the number of
  elements whose placement returned \<open>True\<close>; the command then completes, and its closing
  alert reports that number and the number of filtered elements.
\<close>

theorem placement_failures_isolated:
  "(get_BoundingBox_raises h el = None \<and> BoundingBox el = None \<longrightarrow>
      place_rebars h el rt v hz = (False, [PrintSkipping (Id_el el)]) \<and>
      created_lines (snd (place_rebars h el rt v hz)) = []) \<and>
   (first_raised (raised_in_order h el rt v hz) = Some e \<longrightarrow>
      \<not> fst (place_rebars h el rt v hz) \<and>
      last (snd (place_rebars h el rt v hz)) = PrintFailed (Id_el el) e \<and>
      Commit \<notin> set (snd (place_rebars h el rt v hz))) \<and>
   (fst (place_rebars h el rt v hz) =
      (BoundingBox el \<noteq> None \<and> first_raised (raised_in_order h el rt v hz) = None)) \<and>
   (get_BoundingBox_raises h el = Some e \<longrightarrow>
      place_rebars h el rt v hz = (False, [PrintFailed (Id_el el) e])) \<and>
   (BoundingBox el = Some bbox \<and> get_BoundingBox_raises h el = None \<and>
    v_spacing_raises h bbox v = None \<and> h_spacing_raises h bbox hz = None \<and>
    Transaction_Start h el = None \<and> range_raises h v = None \<and> 0 < v \<and>
    Line_CreateBound h (fst (vertical_ends bbox v 0)) (snd (vertical_ends bbox v 0)) = Some e
    \<longrightarrow>
      place_rebars h el rt v hz =
        (False, [Start ''Place Rebars'', RollBack, PrintFailed (Id_el el) e])) \<and>
   place_all h rt v hz els 0 =
     (length (filter (\<lambda>el. fst (place_rebars h el rt v hz)) els),
      concat (map (\<lambda>el. snd (place_rebars h el rt v hz)) els)) \<and>
   (get_valid_elements selection = Inr els \<and> chosen = Some nm \<and> nm \<noteq> [] \<and>
    find_selected_type nm (zip (rebar_type_names rts) rts) = Some rt \<and>
    get_rebar_counts py inp = Inr (v, hz) \<longrightarrow>
      rebar_script py h selection rts chosen inp =
        (Completed,
         concat (map (\<lambda>el. snd (place_rebars h el rt v hz)) els) @
         [AlertComplete (length (filter (\<lambda>el. fst (place_rebars h el rt v hz)) els))
            (length els) v hz]))"
proof (intro conjI impI)
  assume a: "get_BoundingBox_raises h el = None \<and> BoundingBox el = None"
  then have p: "place_rebars h el rt v hz = (False, [PrintSkipping (Id_el el)])"
    by (simp add: place_rebars_no_bbox)
  show "place_rebars h el rt v hz = (False, [PrintSkipping (Id_el el)])" by (rule p)
  show "created_lines (snd (place_rebars h el rt v hz)) = []"
    unfolding p by (simp add: created_lines_def List.map_filter_simps)
next
  assume a: "first_raised (raised_in_order h el rt v hz) = Some e"
  note r = place_rebars_raised[OF a]
  show "\<not> fst (place_rebars h el rt v hz)"
    and "last (snd (place_rebars h el rt v hz)) = PrintFailed (Id_el el) e"
    and "Commit \<notin> set (snd (place_rebars h el rt v hz))"
    by (rule conjunct1 [OF r], rule conjunct1 [OF conjunct2 [OF r]],
        rule conjunct2 [OF conjunct2 [OF r]])
next
  show "fst (place_rebars h el rt v hz) =
      (BoundingBox el \<noteq> None \<and> first_raised (raised_in_order h el rt v hz) = None)"
    by (rule place_rebars_iff)
next
  assume "get_BoundingBox_raises h el = Some e"
  then show "place_rebars h el rt v hz = (False, [PrintFailed (Id_el el) e])"
    by (simp add: place_rebars_def place_rebars_try_def)
next
  assume a: "BoundingBox el = Some bbox \<and> get_BoundingBox_raises h el = None \<and>
    v_spacing_raises h bbox v = None \<and> h_spacing_raises h bbox hz = None \<and>
    Transaction_Start h el = None \<and> range_raises h v = None \<and> 0 < v \<and>
    Line_CreateBound h (fst (vertical_ends bbox v 0)) (snd (vertical_ends bbox v 0)) = Some e"
  then have "0 < nat v" by simp
  then have u: "[0..<nat v] = 0 # [Suc 0..<nat v]" by (simp add: upt_rec)
  obtain p q where pq: "vertical_ends bbox v 0 = (p, q)" by (cases "vertical_ends bbox v 0")
  have "Line_CreateBound h p q = Some e" using a pq by simp
  then have "create_rebars h el rt BasisX (map (vertical_ends bbox v) [0..<nat v]) = (Some e, [])"
    unfolding u by (simp add: pq)
  then have "transaction_body h el rt bbox v hz = (Some e, [])"
    using a by (simp add: transaction_body_def)
  then show "place_rebars h el rt v hz =
      (False, [Start ''Place Rebars'', RollBack, PrintFailed (Id_el el) e])"
    using a by (simp add: place_rebars_def place_rebars_try_def)
next
  show "place_all h rt v hz els 0 =
     (length (filter (\<lambda>el. fst (place_rebars h el rt v hz)) els),
      concat (map (\<lambda>el. snd (place_rebars h el rt v hz)) els))"
    using place_all_count[of h rt v hz els 0] by simp
next
  assume "get_valid_elements selection = Inr els \<and> chosen = Some nm \<and> nm \<noteq> [] \<and>
    find_selected_type nm (zip (rebar_type_names rts) rts) = Some rt \<and>
    get_rebar_counts py inp = Inr (v, hz)"
  then show "rebar_script py h selection rts chosen inp =
        (Completed,
         concat (map (\<lambda>el. snd (place_rebars h el rt v hz)) els) @
         [AlertComplete (length (filter (\<lambda>el. fst (place_rebars h el rt v hz)) els))
            (length els) v hz])"
    using place_all_count[of h rt v hz els 0] by (simp add: rebar_script_def)
qed

text \<open>
  A floor without a bounding box, a door for which the host's create-rebar call raises,
  a slab for which \<^verbatim>\<open>Line.CreateBound\<close> raises, and the column: the floor is skipped,
  the door and the slab fail and are rolled back, the column gets its two bars, and the
  closing alert reports 1 of 4. With a host whose \<^verbatim>\<open>get_BoundingBox\<close> raises, the
  column fails before anything else happens.
\<close>

theorem placement_failures_isolated_witness:
  "get_BoundingBox_raises ex_host ex_floor = None \<and> BoundingBox ex_floor = None \<and>
   place_rebars ex_host ex_floor ex_type 1 1 = (False, [PrintSkipping 103]) \<and>
   first_raised (raised_in_order ex_host ex_door ex_type 1 1) = Some ''not a valid host'' \<and>
   \<not> fst (place_rebars ex_host ex_door ex_type 1 1) \<and>
   last (snd (place_rebars ex_host ex_door ex_type 1 1)) = PrintFailed 102 ''not a valid host'' \<and>
   Commit \<notin> set (snd (place_rebars ex_host ex_door ex_type 1 1)) \<and>
   fst (place_rebars ex_host ex_column ex_type 1 1) \<and>
   first_raised (raised_in_order ex_host ex_column ex_type 1 1) = None \<and>
   get_BoundingBox_raises (ex_host\<lparr>get_BoundingBox_raises := \<lambda>el. Some ''no such element''\<rparr>)
     ex_column = Some ''no such element'' \<and>
   place_rebars (ex_host\<lparr>get_BoundingBox_raises := \<lambda>el. Some ''no such element''\<rparr>)
     ex_column ex_type 1 1 = (False, [PrintFailed 101 ''no such element'']) \<and>
   Line_CreateBound ex_host \<lparr>X = 0.04, Y = 0.04, Z = 0.04\<rparr> \<lparr>X = 0.04, Y = 0.04, Z = 0.04\<rparr> =
     Some ''curve too short'' \<and>
   place_rebars ex_host ex_slab ex_type 1 1 =
     (False, [Start ''Place Rebars'', RollBack, PrintFailed 104 ''curve too short'']) \<and>
   get_valid_elements [Some ex_floor, Some ex_door, Some ex_slab, Some ex_column] =
     Inr [ex_floor, ex_door, ex_slab, ex_column] \<and>
   rebar_script ascii_builtins ex_host
       [Some ex_floor, Some ex_door, Some ex_slab, Some ex_column] [ex_type] (Some ''D13'')
       (Some ''1'') =
     (Completed,
      [PrintSkipping 103,
       Start ''Place Rebars'', RollBack, PrintFailed 102 ''not a valid host'',
       Start ''Place Rebars'', RollBack, PrintFailed 104 ''curve too short'',
       Start ''Place Rebars'',
       CreateFromCurves 101 ex_type BasisX
         (Line \<lparr>X = 0.04, Y = 0.04, Z = 0.04\<rparr> \<lparr>X = 0.04, Y = 0.04, Z = 1.96\<rparr>),
       CreateFromCurves 101 ex_type BasisZ
         (Line \<lparr>X = 0.04, Y = 0.04, Z = 0.04\<rparr> \<lparr>X = 0.96, Y = 0.04, Z = 0.04\<rparr>),
       Commit,
       AlertComplete 1 4 1 1])"
proof -
  let ?slab_box = "\<lparr>Min_xyz = \<lparr>X = 0, Y = 0, Z = 0\<rparr>, Max_xyz = \<lparr>X = 1, Y = 1, Z = 0.08\<rparr>\<rparr>"
  let ?bad = "ex_host\<lparr>get_BoundingBox_raises := \<lambda>el. Some ''no such element''\<rparr>"
  have fr: "get_BoundingBox_raises ex_host ex_floor = None" by (simp add: ex_host_def)
  have fb: "BoundingBox ex_floor = None" by (simp add: ex_floor_def)
  have ids: "Id_el ex_floor = 103" "Id_el ex_door = 102" "Id_el ex_column = 101"
    "Id_el ex_slab = 104"
    by (simp_all add: ex_floor_def ex_door_def ex_column_def ex_slab_def)
  note t = placement_failures_isolated
  have a: "place_rebars ex_host ex_floor ex_type 1 1 = (False, [PrintSkipping 103])"
    using t [where h = ex_host and el = ex_floor and rt = ex_type and v = 1 and hz = 1,
        THEN conjunct1, THEN mp, OF conjI [OF fr fb], THEN conjunct1]
    unfolding ids .
  have dr: "first_raised (raised_in_order ex_host ex_door ex_type 1 1) = Some ''not a valid host''"
    by (simp add: raised_in_order_def bar_results_def ex_host_def ex_door_def ex_box_def
        v_spacing_raises_def h_spacing_raises_def vertical_ends_def v_spacing_def
        SNI_COVER_def Let_def)
  note b = t [where h = ex_host and el = ex_door and rt = ex_type and v = 1 and hz = 1
      and e = "''not a valid host''", THEN conjunct2, THEN conjunct1, THEN mp, OF dr,
      unfolded ids]
  have cs: "fst (place_rebars ex_host ex_column ex_type 1 1)" by (simp add: ex_place_column_1)
  have cn: "first_raised (raised_in_order ex_host ex_column ex_type 1 1) = None"
    using t [where h = ex_host and el = ex_column and rt = ex_type and v = 1 and hz = 1,
        THEN conjunct2, THEN conjunct2, THEN conjunct1] cs
    by simp
  have gr: "get_BoundingBox_raises ?bad ex_column = Some ''no such element''" by simp
  have g: "place_rebars ?bad ex_column ex_type 1 1 = (False, [PrintFailed 101 ''no such element''])"
    using t [where h = ?bad and el = ex_column and rt = ex_type and v = 1 and hz = 1
        and e = "''no such element''", THEN conjunct2, THEN conjunct2, THEN conjunct2,
        THEN conjunct1, THEN mp, OF gr]
    unfolding ids .
  have lc: "Line_CreateBound ex_host \<lparr>X = 0.04, Y = 0.04, Z = 0.04\<rparr>
      \<lparr>X = 0.04, Y = 0.04, Z = 0.04\<rparr> = Some ''curve too short''"
    by (simp add: ex_host_def)
  have ve: "vertical_ends ?slab_box 1 0 =
      (\<lparr>X = 0.04, Y = 0.04, Z = 0.04\<rparr>, \<lparr>X = 0.04, Y = 0.04, Z = 0.04\<rparr>)"
    by (simp add: vertical_ends_def v_spacing_def SNI_COVER_def Let_def)
  have sh: "BoundingBox ex_slab = Some ?slab_box \<and> get_BoundingBox_raises ex_host ex_slab = None \<and>
      v_spacing_raises ex_host ?slab_box 1 = None \<and> h_spacing_raises ex_host ?slab_box 1 = None \<and>
      Transaction_Start ex_host ex_slab = None \<and> range_raises ex_host 1 = None \<and> (0::int) < 1 \<and>
      Line_CreateBound ex_host (fst (vertical_ends ?slab_box 1 0))
        (snd (vertical_ends ?slab_box 1 0)) = Some ''curve too short''"
    unfolding ve using lc
    by (simp add: ex_slab_def ex_host_def v_spacing_raises_def h_spacing_raises_def)
  have s: "place_rebars ex_host ex_slab ex_type 1 1 =
      (False, [Start ''Place Rebars'', RollBack, PrintFailed 104 ''curve too short''])"
    using t [where h = ex_host and el = ex_slab and rt = ex_type and v = 1 and hz = 1
        and bbox = ?slab_box and e = "''curve too short''", THEN conjunct2, THEN conjunct2,
        THEN conjunct2, THEN conjunct2, THEN conjunct1, THEN mp, OF sh]
    unfolding ids .
  have n4: "''D13'' \<noteq> []" by simp
  have d: "rebar_script ascii_builtins ex_host
        [Some ex_floor, Some ex_door, Some ex_slab, Some ex_column] [ex_type]
        (Some ''D13'') (Some ''1'') =
      (Completed,
       concat (map (\<lambda>el. snd (place_rebars ex_host el ex_type 1 1))
         [ex_floor, ex_door, ex_slab, ex_column]) @
       [AlertComplete
          (length (filter (\<lambda>el. fst (place_rebars ex_host el ex_type 1 1))
             [ex_floor, ex_door, ex_slab, ex_column]))
          (length [ex_floor, ex_door, ex_slab, ex_column]) 1 1])"
    using t [where h = ex_host and rt = ex_type and v = 1 and hz = 1
        and selection = "[Some ex_floor, Some ex_door, Some ex_slab, Some ex_column]"
        and els = "[ex_floor, ex_door, ex_slab, ex_column]" and chosen = "Some ''D13''"
        and nm = "''D13''" and rts = "[ex_type]" and inp = "Some ''1''" and py = ascii_builtins,
        THEN conjunct2, THEN conjunct2, THEN conjunct2, THEN conjunct2, THEN conjunct2,
        THEN conjunct2, THEN mp,
        OF conjI [OF ex_selection(4) conjI [OF refl conjI [OF n4
          conjI [OF ex_selection(2) ex_counts(3)]]]]] .
  have d': "rebar_script ascii_builtins ex_host
        [Some ex_floor, Some ex_door, Some ex_slab, Some ex_column] [ex_type]
        (Some ''D13'') (Some ''1'') =
     (Completed,
      [PrintSkipping 103,
       Start ''Place Rebars'', RollBack, PrintFailed 102 ''not a valid host'',
       Start ''Place Rebars'', RollBack, PrintFailed 104 ''curve too short'',
       Start ''Place Rebars'',
       CreateFromCurves 101 ex_type BasisX
         (Line \<lparr>X = 0.04, Y = 0.04, Z = 0.04\<rparr> \<lparr>X = 0.04, Y = 0.04, Z = 1.96\<rparr>),
       CreateFromCurves 101 ex_type BasisZ
         (Line \<lparr>X = 0.04, Y = 0.04, Z = 0.04\<rparr> \<lparr>X = 0.96, Y = 0.04, Z = 0.04\<rparr>),
       Commit,
       AlertComplete 1 4 1 1])"
    unfolding d by (simp add: ex_place_floor ex_place_door ex_place_slab ex_place_column_1)
  show ?thesis
    by (intro conjI)
      (rule fr, rule fb, rule a, rule dr, rule conjunct1 [OF b],
       rule conjunct1 [OF conjunct2 [OF b]], rule conjunct2 [OF conjunct2 [OF b]],
       rule cs, rule cn, rule gr, rule g, rule lc, rule s, rule ex_selection(4), rule d')
qed

text \<open>
  Claim C6, at a selection holding one family instance that is not structural (a door).
  The claim's filter, "a structural family instance, a wall or a floor", keeps nothing
  of it, so the command should show its alert and exit. The code's filter keeps the
  door: \<open>get_valid_elements\<close> returns it, the command goes on to the placement, the
  host refuses the door as a rebar host, and the closing alert reports 0 of 1.
\<close>

theorem non_structural_instance_kept:
  "filter (\<lambda>el. spec_can_host_rebar (cls el)) (List.map_filter (\<lambda>x. x) [Some ex_door]) = [] \<and>
   valid_elements [Some ex_door] = [ex_door] \<and>
   get_valid_elements [Some ex_door] = Inr [ex_door] \<and>
   rebar_script ascii_builtins ex_host [Some ex_door] [ex_type] (Some ''D13'') (Some ''1'') =
     (Completed,
      [Start ''Place Rebars'', RollBack, PrintFailed 102 ''not a valid host'',
       AlertComplete 0 1 1 1])"
proof -
  have a: "filter (\<lambda>el. spec_can_host_rebar (cls el)) (List.map_filter (\<lambda>x. x) [Some ex_door]) = []"
    by (simp add: ex_door_def List.map_filter_simps)
  have b: "valid_elements [Some ex_door] = [ex_door]" by (simp add: ex_door_def)
  have c: "rebar_script ascii_builtins ex_host [Some ex_door] [ex_type] (Some ''D13'') (Some ''1'') =
     (Completed,
      [Start ''Place Rebars'', RollBack, PrintFailed 102 ''not a valid host'',
       AlertComplete 0 1 1 1])"
    by (simp add: rebar_script_def ex_selection ex_counts ex_place_door)
  show ?thesis by (intro conjI) (rule a, rule b, rule ex_selection(3), rule c)
qed

text \<open>
  Claim C9. When the placement of an element succeeds (counts at least 1, as
  \<open>get_rebar_counts\<close> returns them), the events of that element are the start of its
  transaction, then one create-rebar call per index \<open>0..vertical-1\<close> with the normal
  \<^verbatim>\<open>BasisX\<close>, then one per index \<open>0..horizontal-1\<close> with the normal \<^verbatim>\<open>BasisZ\<close>, then
  the commit: \<open>vertical + horizontal\<close> calls in all. The curve of vertical bar \<open>i\<close> keeps
  its X and Y and runs in Z from \<open>Min.Z + cover\<close> to \<open>Max.Z - cover\<close>, at
  \<open>x = Min.X + cover + i * v_spacing\<close>; the curve of horizontal bar \<open>i\<close> keeps its Y and Z
  and runs in X from \<open>Min.X + cover\<close> to \<open>Max.X - cover\<close>, at
  \<open>z = Min.Z + cover + i * h_spacing\<close>.
\<close>

theorem placement_issues_all_bars:
  assumes "fst (place_rebars h el rt vertical horizontal)"
    and "1 \<le> vertical" and "1 \<le> horizontal"
  shows "\<exists>bbox. BoundingBox el = Some bbox \<and>
           snd (place_rebars h el rt vertical horizontal) =
             [Start ''Place Rebars''] @
             map (\<lambda>i. bar_call el rt BasisX (vertical_ends bbox vertical i)) [0..<nat vertical] @
             map (\<lambda>i. bar_call el rt BasisZ (horizontal_ends bbox horizontal i))
               [0..<nat horizontal] @
             [Commit] \<and>
           int (length (created_lines (snd (place_rebars h el rt vertical horizontal)))) =
             vertical + horizontal \<and>
           (\<forall>i. X (snd (vertical_ends bbox vertical i)) = X (fst (vertical_ends bbox vertical i)) \<and>
                Y (snd (vertical_ends bbox vertical i)) = Y (fst (vertical_ends bbox vertical i)) \<and>
                Z (fst (vertical_ends bbox vertical i)) = Z (Min_xyz bbox) + SNI_COVER \<and>
                Z (snd (vertical_ends bbox vertical i)) = Z (Max_xyz bbox) - SNI_COVER \<and>
                X (fst (vertical_ends bbox vertical i)) =
                  X (Min_xyz bbox) + SNI_COVER + of_nat i * v_spacing bbox vertical) \<and>
           (\<forall>i. Z (snd (horizontal_ends bbox horizontal i)) =
                  Z (fst (horizontal_ends bbox horizontal i)) \<and>
                Y (snd (horizontal_ends bbox horizontal i)) =
                  Y (fst (horizontal_ends bbox horizontal i)) \<and>
                X (fst (horizontal_ends bbox horizontal i)) = X (Min_xyz bbox) + SNI_COVER \<and>
                X (snd (horizontal_ends bbox horizontal i)) = X (Max_xyz bbox) - SNI_COVER \<and>
                Z (fst (horizontal_ends bbox horizontal i)) =
                  Z (Min_xyz bbox) + SNI_COVER + of_nat i * h_spacing bbox horizontal)"
proof -
  obtain bbox where b: "BoundingBox el = Some bbox"
    and ev: "snd (place_rebars h el rt vertical horizontal) =
             [Start ''Place Rebars''] @
             map (\<lambda>i. bar_call el rt BasisX (vertical_ends bbox vertical i)) [0..<nat vertical] @
             map (\<lambda>i. bar_call el rt BasisZ (horizontal_ends bbox horizontal i))
               [0..<nat horizontal] @
             [Commit]"
    using place_rebars_success[OF assms(1)] by blast
  have "length (created_lines (snd (place_rebars h el rt vertical horizontal))) =
      nat vertical + nat horizontal"
    unfolding created_lines_success[OF assms(1) b] by simp
  then have n: "int (length (created_lines (snd (place_rebars h el rt vertical horizontal)))) =
      vertical + horizontal"
    using assms(2,3) by simp
  show ?thesis
    using b ev n by (simp add: vertical_ends_coords horizontal_ends_coords)
qed

text \<open>The column of the example with three vertical bars and one horizontal bar.\<close>

theorem placement_issues_all_bars_witness:
  "fst (place_rebars ex_host ex_column ex_type 3 1) \<and> (1::int) \<le> 3 \<and> (1::int) \<le> 1 \<and>
   snd (place_rebars ex_host ex_column ex_type 3 1) =
     [Start ''Place Rebars''] @
     map (\<lambda>i. bar_call ex_column ex_type BasisX (vertical_ends ex_box 3 i)) [0..<nat 3] @
     map (\<lambda>i. bar_call ex_column ex_type BasisZ (horizontal_ends ex_box 1 i)) [0..<nat 1] @
     [Commit] \<and>
   int (length (created_lines (snd (place_rebars ex_host ex_column ex_type 3 1)))) = 3 + 1"
proof -
  have s: "fst (place_rebars ex_host ex_column ex_type 3 1)" by (simp add: ex_place_column_3)
  show ?thesis
    using placement_issues_all_bars [OF s, of ] s ex_column_box by auto
qed

text \<open>
  Claim C10. Whatever the counts, and whether the placement succeeds or is stopped by an
  exception, the curve of every bar created for an element with the bounding box
  \<open>bbox\<close> has both end points at \<open>y = bbox.Min.Y + SNI_COVER\<close>: all bars of the
  element, vertical and horizontal, lie in that one plane.
\<close>

theorem bars_in_one_plane:
  assumes "BoundingBox el = Some bbox"
    and "(n, l) \<in> set (created_lines (snd (place_rebars h el rt vertical horizontal)))"
  shows "Y (line_start l) = Y (Min_xyz bbox) + SNI_COVER \<and>
         Y (line_end l) = Y (Min_xyz bbox) + SNI_COVER"
proof -
  obtain i t where "CreateFromCurves i t n l \<in> set (snd (place_rebars h el rt vertical horizontal))"
    using created_lines_origin[OF assms(2)] by blast
  then show ?thesis
    using place_rebars_bar_events[OF assms(1)]
    by (fastforce simp: vertical_ends_coords horizontal_ends_coords)
qed

text \<open>
  The column of the example with one bar each way: its vertical bar runs from
  \<open>(0.04, 0.04, 0.04)\<close> to \<open>(0.04, 0.04, 1.96)\<close>.
\<close>

theorem bars_in_one_plane_witness:
  "BoundingBox ex_column = Some ex_box \<and>
   (BasisX, Line \<lparr>X = 0.04, Y = 0.04, Z = 0.04\<rparr> \<lparr>X = 0.04, Y = 0.04, Z = 1.96\<rparr>)
     \<in> set (created_lines (snd (place_rebars ex_host ex_column ex_type 1 1))) \<and>
   Y (line_start (Line \<lparr>X = 0.04, Y = 0.04, Z = 0.04\<rparr> \<lparr>X = 0.04, Y = 0.04, Z = 1.96\<rparr>)) =
     Y (Min_xyz ex_box) + SNI_COVER \<and>
   Y (line_end (Line \<lparr>X = 0.04, Y = 0.04, Z = 0.04\<rparr> \<lparr>X = 0.04, Y = 0.04, Z = 1.96\<rparr>)) =
     Y (Min_xyz ex_box) + SNI_COVER"
proof -
  have m: "(BasisX, Line \<lparr>X = 0.04, Y = 0.04, Z = 0.04\<rparr> \<lparr>X = 0.04, Y = 0.04, Z = 1.96\<rparr>)
     \<in> set (created_lines (snd (place_rebars ex_host ex_column ex_type 1 1)))"
    by (simp add: ex_place_column_1 created_lines_def List.map_filter_simps)
  show ?thesis
    using bars_in_one_plane [OF ex_column_box m] ex_column_box m by blast
qed

end
